theory Spec2Isabelle
  imports Main "HOL-Library.Sublist"
begin

section \<open>Strings and the regular-expression character classes\<close>

text \<open>
  A JavaScript string is modelled as a \<^typ>\<open>string\<close>; one \<^typ>\<open>char\<close> stands for one code
  unit below 256 (ASCII and Latin-1). The classes below are the ECMAScript classes restricted
  to that range: \<^verbatim>\<open>\s\<close> is TAB, LF, VT, FF, CR, SPACE and NBSP; \<^verbatim>\<open>\d\<close> is 0-9; \<^verbatim>\<open>\w\<close> is
  A-Z, a-z, 0-9 and underscore; the dot excludes LF and CR.
\<close>

definition isSpace :: "char \<Rightarrow> bool" where
  "isSpace c = ((of_char c :: nat) \<in> {9, 10, 11, 12, 13, 32, 160})"

definition isLineTerminator :: "char \<Rightarrow> bool" where
  "isLineTerminator c = ((of_char c :: nat) \<in> {10, 13})"

definition isDigit :: "char \<Rightarrow> bool" where
  "isDigit c = (48 \<le> (of_char c :: nat) \<and> (of_char c :: nat) \<le> 57)"

definition isUpper :: "char \<Rightarrow> bool" where
  "isUpper c = (65 \<le> (of_char c :: nat) \<and> (of_char c :: nat) \<le> 90)"

definition isLower :: "char \<Rightarrow> bool" where
  "isLower c = (97 \<le> (of_char c :: nat) \<and> (of_char c :: nat) \<le> 122)"

definition isAlpha :: "char \<Rightarrow> bool" where
  "isAlpha c = (isUpper c \<or> isLower c)"

definition isWordChar :: "char \<Rightarrow> bool" where
  "isWordChar c = (isAlpha c \<or> isDigit c \<or> c = CHR ''_'')"

text \<open>\<^verbatim>\<open>String.prototype.trim\<close>: white space and line terminators leave both ends.\<close>

definition trim :: "string \<Rightarrow> string" where
  "trim s = rev (dropWhile isSpace (rev (dropWhile isSpace s)))"

text \<open>
  \<^verbatim>\<open>toUpperCase\<close> on code units below 256: a-z and the Latin-1 lower-case letters move down
  by 32, the sharp s becomes \<^verbatim>\<open>SS\<close>. The micro sign and y-diaeresis have upper-case forms
  outside the range; they stay as they are, which no regular expression of the code can
  tell apart (each of them mentions ASCII letters only).
\<close>

definition upperChar :: "char \<Rightarrow> string" where
  "upperChar c =
     (let n = (of_char c :: nat) in
      if n = 223 then ''SS''
      else if (97 \<le> n \<and> n \<le> 122) \<or> (224 \<le> n \<and> n \<le> 254 \<and> n \<noteq> 247)
           then [char_of (n - 32)]
      else [c])"

definition toUpperCase :: "string \<Rightarrow> string" where
  "toUpperCase s = concat (map upperChar s)"

text \<open>Case-insensitive comparison of one code unit with an ASCII pattern letter (flag \<^verbatim>\<open>i\<close>).\<close>

definition ciEq :: "char \<Rightarrow> char \<Rightarrow> bool" where
  "ciEq p c = (c = p \<or> (isAlpha c \<and> isAlpha p \<and> upperChar c = upperChar p))"

text \<open>\<^verbatim>\<open>ciPrefix p s\<close>: the rest of \<open>s\<close> after the literal \<open>p\<close>, matched without case.\<close>

fun ciPrefix :: "string \<Rightarrow> string \<Rightarrow> string option" where
  "ciPrefix [] s = Some s"
| "ciPrefix (p # ps) [] = None"
| "ciPrefix (p # ps) (c # cs) = (if ciEq p c then ciPrefix ps cs else None)"

text \<open>\<^verbatim>\<open>String.prototype.includes\<close>: the needle occurs as a contiguous substring.\<close>

fun str_includes :: "string \<Rightarrow> string \<Rightarrow> bool" where
  "str_includes [] needle = (needle = [])"
| "str_includes (c # cs) needle = (take (length needle) (c # cs) = needle \<or> str_includes cs needle)"

text \<open>\<^verbatim>\<open>split(/[,;]/)\<close> and, more generally, splitting at every code unit of a class.\<close>

fun splitOn :: "(char \<Rightarrow> bool) \<Rightarrow> string \<Rightarrow> string list" where
  "splitOn p [] = [[]]"
| "splitOn p (c # cs) =
     (if p c then [] # splitOn p cs
      else (case splitOn p cs of [] \<Rightarrow> [[c]] | w # ws \<Rightarrow> (c # w) # ws))"

definition isCommaSemi :: "char \<Rightarrow> bool" where
  "isCommaSemi c = (c = CHR '','' \<or> c = CHR '';'')"

text \<open>\<^verbatim>\<open>parseInt(digits, 10)\<close> on a string of decimal digits (exact below \<open>2^53\<close>).\<close>

definition digitVal :: "char \<Rightarrow> nat" where
  "digitVal c = of_char c - 48"

definition parseInt :: "string \<Rightarrow> nat" where
  "parseInt ds = foldl (\<lambda>n c. 10 * n + digitVal c) 0 ds"

text \<open>Decimal rendering of a number inside a template literal.\<close>

fun natToString :: "nat \<Rightarrow> string" where
  "natToString n =
     (if n < 10 then [char_of (48 + n)]
      else natToString (n div 10) @ [char_of (48 + n mod 10)])"

section \<open>Utilities.gs\<close>

text \<open>\<^verbatim>\<open>s.replace(/c/g, r)\<close> for a one-character pattern.\<close>

definition replaceAllChar :: "char \<Rightarrow> string \<Rightarrow> string \<Rightarrow> string" where
  "replaceAllChar c r s = concat (map (\<lambda>x. if x = c then r else [x]) s)"

text \<open>
  \<^verbatim>\<open>sanitizeHtml\<close> of the QTI 1.2 utilities: \<open>None\<close> is \<^verbatim>\<open>null\<close> or \<^verbatim>\<open>undefined\<close>. The four
  chained replacements are written with the replacement strings the source has.
\<close>

definition sanitizeHtml :: "string option \<Rightarrow> string" where
  "sanitizeHtml t =
     (case t of
        None \<Rightarrow> ''''
      | Some s \<Rightarrow>
          replaceAllChar (CHR 0x22) [CHR 0x22]
            (replaceAllChar (CHR ''>'') ''>''
              (replaceAllChar (CHR ''<'') ''<''
                (replaceAllChar (CHR ''&'') ''&'' s))))"

text \<open>
  \<^verbatim>\<open>generateImageFilename(questionNumber, context, imageId, originalExtension)\<close>: the base
  name loses every code unit outside \<^verbatim>\<open>[a-zA-Z0-9_]\<close> to an underscore, runs of underscores
  collapse to one, and the extension keeps its lower-case letters and digits.
\<close>

definition lowerChar :: "char \<Rightarrow> char" where
  "lowerChar c =
     (let n = (of_char c :: nat) in
      if (65 \<le> n \<and> n \<le> 90) \<or> (192 \<le> n \<and> n \<le> 222 \<and> n \<noteq> 215) then char_of (n + 32) else c)"

definition toLowerCase :: "string \<Rightarrow> string" where
  "toLowerCase s = map lowerChar s"

fun collapseUnderscores :: "string \<Rightarrow> string" where
  "collapseUnderscores (a # b # cs) =
     (if a = CHR ''_'' \<and> b = CHR ''_'' then collapseUnderscores (b # cs)
      else a # collapseUnderscores (b # cs))"
| "collapseUnderscores cs = cs"

definition generateImageFilename :: "nat \<Rightarrow> string \<Rightarrow> string \<Rightarrow> string \<Rightarrow> string" where
  "generateImageFilename questionNumber context imageId originalExtension =
     (let baseName = ''q'' @ natToString questionNumber @ ''_'' @ context @ ''_'' @ imageId;
          extension = filter (\<lambda>c. isLower c \<or> isDigit c)
                        (toLowerCase (if originalExtension = [] then ''png'' else originalExtension));
          sanitizedBase = collapseUnderscores
                            (map (\<lambda>c. if isWordChar c then c else CHR ''_'') baseName)
      in sanitizedBase @ ''.'' @ extension)"

section \<open>Constants.gs\<close>

datatype question_type =
    MULTIPLE_CHOICE_SINGLE
  | MULTIPLE_CHOICE_MULTI
  | TRUE_FALSE
  | FILL_IN_BLANK_TEXT
  | FILL_IN_BLANK_NUMERIC
  | ESSAY
  | SHORT_ANSWER
  | MATCHING
  | ORDERING

text \<open>The global \<^verbatim>\<open>questionTypes\<close> map, passed explicitly: question number to type.\<close>

type_synonym type_map = "nat \<rightharpoonup> question_type"

section \<open>QuestionParsing.gs\<close>

subsection \<open>The document, as the Apps Script document service shows it\<close>

text \<open>
  A body child is a paragraph, a list item or something else; a paragraph's children are
  text runs, inline images and other elements. An inline image carries the content type of
  its blob, or \<open>None\<close> when reading the blob throws (the image is then skipped).
\<close>

datatype child =
    TextChild string
  | InlineImageChild "string option" nat nat
  | OtherChild

datatype element =
    Paragraph "child list"
  | ListItem "child list"
  | OtherElement

record image =
  img_id :: string
  contentType :: string
  width :: nat
  height :: nat
  filename :: string

record option_rec =
  letter :: string
  opt_text :: string
  opt_images :: "image list"

record question =
  number :: nat
  qtype :: question_type
  q_text :: string
  options :: "option_rec list"
  images :: "image list"
  hasImages :: bool

text \<open>
  \<^verbatim>\<open>Utilities.getUuid()\<close> is a supply of strings read through a counter: the \<open>k\<close>-th call
  of a run returns \<open>uuid k\<close>. The image id is that string without its dashes.
\<close>

type_synonym uuid_supply = "nat \<Rightarrow> string"

definition mintImageId :: "uuid_supply \<Rightarrow> nat \<Rightarrow> string" where
  "mintImageId uuid k = filter (\<lambda>c. c \<noteq> CHR ''-'') (uuid k)"

definition placeholder :: "string \<Rightarrow> string" where
  "placeholder imageId = ''[IMG:'' @ imageId @ '']''"

text \<open>
  \<^verbatim>\<open>getExtensionFromMimeType\<close>. The fallback splits at the slash and keeps at most four
  lower-case letters or digits of the second part.
\<close>

definition getExtensionFromMimeType :: "string \<Rightarrow> string" where
  "getExtensionFromMimeType mimeTypeString =
     (if mimeTypeString = [] then ''png''
      else let lowerMime = toLowerCase mimeTypeString in
        if str_includes lowerMime ''png'' then ''png''
        else if str_includes lowerMime ''jpeg'' \<or> str_includes lowerMime ''jpg'' then ''jpg''
        else if str_includes lowerMime ''gif'' then ''gif''
        else if str_includes lowerMime ''bmp'' then ''bmp''
        else (case splitOn (\<lambda>c. c = CHR ''/'') lowerMime of
                [a, b] \<Rightarrow>
                  (if b = [] then ''png''
                   else let e = take 4 (filter (\<lambda>c. isLower c \<or> isDigit c) b)
                        in if e = [] then ''png'' else e)
              | _ \<Rightarrow> ''png''))"

record element_data =
  ed_text :: string
  ed_images :: "image list"

text \<open>
  The loop of \<^verbatim>\<open>processElement\<close> over the children: text runs are appended, an inline image
  mints an id (also when its blob cannot be read), stores its metadata and appends its
  placeholder. The state is the text so far, the images so far and the uuid counter.
\<close>

fun processChildren ::
  "uuid_supply \<Rightarrow> child list \<Rightarrow> string \<times> image list \<times> nat \<Rightarrow> string \<times> image list \<times> nat" where
  "processChildren uuid [] st = st"
| "processChildren uuid (TextChild t # cs) (fullText, imgs, k) =
     processChildren uuid cs (fullText @ t, imgs, k)"
| "processChildren uuid (InlineImageChild blob w h # cs) (fullText, imgs, k) =
     (let imageId = mintImageId uuid k in
      case blob of
        None \<Rightarrow> processChildren uuid cs (fullText, imgs, Suc k)
      | Some ct \<Rightarrow>
          processChildren uuid cs
            (fullText @ placeholder imageId,
             imgs @ [\<lparr>img_id = imageId, contentType = ct, width = w, height = h, filename = []\<rparr>],
             Suc k))"
| "processChildren uuid (OtherChild # cs) st = processChildren uuid cs st"

definition processElement :: "uuid_supply \<Rightarrow> nat \<Rightarrow> element \<Rightarrow> element_data \<times> nat" where
  "processElement uuid k e =
     (case e of
        OtherElement \<Rightarrow> (\<lparr>ed_text = [], ed_images = []\<rparr>, k)
      | Paragraph cs \<Rightarrow>
          (case processChildren uuid cs ([], [], k) of
             (fullText, imgs, k') \<Rightarrow> (\<lparr>ed_text = trim fullText, ed_images = imgs\<rparr>, k'))
      | ListItem cs \<Rightarrow>
          (case processChildren uuid cs ([], [], k) of
             (fullText, imgs, k') \<Rightarrow> (\<lparr>ed_text = trim fullText, ed_images = imgs\<rparr>, k')))"

subsection \<open>The recognisers of the structural parser\<close>

text \<open>
  \<^verbatim>\<open>/^\s*ANSWER\s+KEY\s*:?\s*$/i\<close>. Every quantifier is greedy over a class disjoint from
  what follows it, so the match is decided by one left-to-right scan.
\<close>

definition restIsColonEnd :: "string \<Rightarrow> bool" where
  "restIsColonEnd s =
     (case dropWhile isSpace s of
        [] \<Rightarrow> True
      | c # r \<Rightarrow> c = CHR '':'' \<and> dropWhile isSpace r = [])"

definition matchAnswerKeyPattern :: "string \<Rightarrow> bool" where
  "matchAnswerKeyPattern s =
     (case ciPrefix ''ANSWER'' (dropWhile isSpace s) of
        None \<Rightarrow> False
      | Some r \<Rightarrow>
          (case r of
             [] \<Rightarrow> False
           | c # r' \<Rightarrow>
               isSpace c \<and>
               (case ciPrefix ''KEY'' (dropWhile isSpace r') of
                  None \<Rightarrow> False
                | Some r'' \<Rightarrow> restIsColonEnd r'')))"

text \<open>
  \<^verbatim>\<open>/^\s*(\d+)\s*[.)-]\s+(.*)/\<close>: the result is the pair of the two groups. The dot stops
  at a line terminator, and the pattern is not anchored at the end.
\<close>

definition isMarkerPunct :: "char \<Rightarrow> bool" where
  "isMarkerPunct c = (c = CHR ''.'' \<or> c = CHR '')'' \<or> c = CHR ''-'')"

definition restOfLine :: "string \<Rightarrow> string" where
  "restOfLine s = takeWhile (\<lambda>c. \<not> isLineTerminator c) s"

definition questionStartMatch :: "string \<Rightarrow> (string \<times> string) option" where
  "questionStartMatch s =
     (let s1 = dropWhile isSpace s;
          ds = takeWhile isDigit s1
      in if ds = [] then None
         else (case dropWhile isSpace (dropWhile isDigit s1) of
                 [] \<Rightarrow> None
               | c # s3 \<Rightarrow>
                   (if isMarkerPunct c then
                      (case s3 of
                         [] \<Rightarrow> None
                       | d # s4 \<Rightarrow>
                           if isSpace d then Some (ds, restOfLine (dropWhile isSpace s4))
                           else None)
                    else None)))"

text \<open>
  \<^verbatim>\<open>/^\s*(?:(?:([A-Za-z])\s*[.)])|(?:\(\s*([A-Za-z])\s*\)))\s+(.*)/\<close>: the result is the
  letter (group 1 or group 2) and group 3.
\<close>

definition afterOptionMarker :: "char \<Rightarrow> string \<Rightarrow> (string \<times> string) option" where
  "afterOptionMarker l s =
     (case s of
        [] \<Rightarrow> None
      | d # s' \<Rightarrow> if isSpace d then Some ([l], restOfLine (dropWhile isSpace s')) else None)"

definition optionMatch :: "string \<Rightarrow> (string \<times> string) option" where
  "optionMatch s =
     (case dropWhile isSpace s of
        [] \<Rightarrow> None
      | c # r \<Rightarrow>
          if isAlpha c then
            (case dropWhile isSpace r of
               [] \<Rightarrow> None
             | p # r' \<Rightarrow>
                 if p = CHR ''.'' \<or> p = CHR '')'' then afterOptionMarker c r' else None)
          else if c = CHR ''('' then
            (case dropWhile isSpace r of
               [] \<Rightarrow> None
             | l # r' \<Rightarrow>
                 if isAlpha l then
                   (case dropWhile isSpace r' of
                      [] \<Rightarrow> None
                    | p # r'' \<Rightarrow> if p = CHR '')'' then afterOptionMarker l r'' else None)
                 else None)
          else None)"

subsection \<open>Type inference\<close>

text \<open>
  A whole-word occurrence (\<^verbatim>\<open>\bWORD\b\<close>) of a word made of word characters: the code
  unit before it and the one after it are not word characters, or do not exist.
  \<open>pw\<close> tells whether the code unit before the current position is a word character.
\<close>

definition startsWord :: "string \<Rightarrow> string \<Rightarrow> bool" where
  "startsWord w s =
     (take (length w) s = w \<and>
      (case drop (length w) s of [] \<Rightarrow> True | d # r \<Rightarrow> \<not> isWordChar d))"

fun hasWordFrom :: "string \<Rightarrow> bool \<Rightarrow> string \<Rightarrow> bool" where
  "hasWordFrom w pw [] = False"
| "hasWordFrom w pw (c # cs) =
     ((\<not> pw \<and> startsWord w (c # cs)) \<or> hasWordFrom w (isWordChar c) cs)"

definition hasWord :: "string \<Rightarrow> string \<Rightarrow> bool" where
  "hasWord w s = hasWordFrom w False s"

text \<open>
  \<^verbatim>\<open>/\bTRUE\b.*\bFALSE\b/\<close>: a whole word TRUE, and after it on the same line a whole
  word FALSE.
\<close>

fun trueThenFalseFrom :: "bool \<Rightarrow> string \<Rightarrow> bool" where
  "trueThenFalseFrom pw [] = False"
| "trueThenFalseFrom pw (c # cs) =
     ((\<not> pw \<and> startsWord ''TRUE'' (c # cs) \<and>
         hasWordFrom ''FALSE'' True (restOfLine (drop 4 (c # cs))))
      \<or> trueThenFalseFrom (isWordChar c) cs)"

text \<open>\<^verbatim>\<open>/^\s*MATCH\s/i\<close>.\<close>

definition startsWithMatch :: "string \<Rightarrow> bool" where
  "startsWithMatch s =
     (case ciPrefix ''MATCH'' (dropWhile isSpace s) of
        None \<Rightarrow> False
      | Some r \<Rightarrow> (case r of [] \<Rightarrow> False | c # r' \<Rightarrow> isSpace c))"

text \<open>
  \<^verbatim>\<open>inferQuestionType(text, initialOptions, isListItem, listId)\<close>; the last two
  parameters are never read by the body and are left out.
\<close>

definition inferQuestionType :: "string \<Rightarrow> option_rec list \<Rightarrow> question_type" where
  "inferQuestionType txt initialOptions =
     (let upperText = toUpperCase txt in
      if trueThenFalseFrom False upperText \<or> str_includes upperText ''TRUE/FALSE''
        then TRUE_FALSE
      else if hasWord ''MATCHING'' upperText \<or> startsWithMatch txt then MATCHING
      else if hasWord ''ORDERING'' upperText \<or> hasWord ''ORDER'' upperText
              \<or> hasWord ''SEQUENCE'' upperText then ORDERING
      else if str_includes txt ''___'' then FILL_IN_BLANK_TEXT
      else if initialOptions \<noteq> [] then
        (let optionLetters = map letter initialOptions in
         if ''T'' \<in> set optionLetters \<and> ''F'' \<in> set optionLetters then TRUE_FALSE
         else MULTIPLE_CHOICE_SINGLE)
      else SHORT_ANSWER)"

subsection \<open>The structural parser\<close>

text \<open>
  The local variables of \<^verbatim>\<open>parseQuestions\<close>, together with the global type map and the
  uuid counter. \<^verbatim>\<open>currentOptions\<close> is the array the current question's \<^verbatim>\<open>options\<close> field
  refers to, so it is read and written through the current question.
\<close>

record pq_state =
  st_questions :: "question list"
  st_allImages :: "image list"
  st_currentQuestion :: "question option"
  st_accumulatedImages :: "image list"
  st_currentQuestionNumber :: nat
  st_questionTypes :: type_map
  st_uuidCounter :: nat

record parse_result =
  pr_questions :: "question list"
  pr_images :: "image list"
  pr_questionTypes :: type_map
  pr_uuidCounter :: nat

text \<open>
  Finalisation, done before the next question starts and after the loop: the question
  keeps the accumulated images whose placeholder occurs in its text or in an option.
\<close>

definition finalizeQuestion :: "question \<Rightarrow> image list \<Rightarrow> question" where
  "finalizeQuestion q acc =
     (let linked = filter (\<lambda>img.
                      str_includes (q_text q) (placeholder (img_id img)) \<or>
                      list_ex (\<lambda>opt. str_includes (opt_text opt) (placeholder (img_id img)))
                        (options q)) acc
      in q\<lparr>images := linked, hasImages := (linked \<noteq> [])\<rparr>)"

text \<open>Step 2 of the loop body: a question marker finalises the draft and starts the next.\<close>

definition startQuestion :: "string \<Rightarrow> string \<Rightarrow> string \<Rightarrow> pq_state \<Rightarrow> pq_state" where
  "startQuestion elementText ds rest st =
     (let detectedNumber = parseInt ds;
          questionTextStart = trim rest;
          finalized = (case st_currentQuestion st of
                         None \<Rightarrow> st_questions st
                       | Some q \<Rightarrow> st_questions st @ [finalizeQuestion q (st_accumulatedImages st)]);
          acc = filter (\<lambda>img. str_includes elementText (placeholder (img_id img)))
                  (st_accumulatedImages st);
          inferredType = inferQuestionType questionTextStart []
      in st\<lparr>st_questions := finalized,
            st_currentQuestionNumber := detectedNumber,
            st_accumulatedImages := acc,
            st_currentQuestion :=
              Some \<lparr>number = detectedNumber, qtype = inferredType, q_text = questionTextStart,
                    options = [], images = [], hasImages = (acc \<noteq> [])\<rparr>,
            st_questionTypes := (st_questionTypes st)(detectedNumber \<mapsto> inferredType)\<rparr>)"

text \<open>
  The refinement of the type when an option has been appended: \<open>None\<close> when the guard
  leaves the type alone, otherwise the type written to the question and to the type map.
\<close>

definition refineType :: "question \<Rightarrow> question_type option" where
  "refineType q =
     (if qtype q \<noteq> MULTIPLE_CHOICE_SINGLE \<and> qtype q \<noteq> MULTIPLE_CHOICE_MULTI \<and>
         qtype q \<noteq> TRUE_FALSE \<and> qtype q \<noteq> MATCHING \<and> qtype q \<noteq> ORDERING
      then (let currentLetters = map letter (options q) in
            if ''T'' \<in> set currentLetters \<and> ''F'' \<in> set currentLetters then Some TRUE_FALSE
            else Some MULTIPLE_CHOICE_SINGLE)
      else None)"

text \<open>\<^verbatim>\<open>/\s$/\<close> on the text so far and \<^verbatim>\<open>/^[.,;:!?]/\<close> on the new text.\<close>

definition endsWithSpace :: "string \<Rightarrow> bool" where
  "endsWithSpace s = (s \<noteq> [] \<and> isSpace (last s))"

definition startsWithPunct :: "string \<Rightarrow> bool" where
  "startsWithPunct s = (case s of [] \<Rightarrow> False | c # r \<Rightarrow> c \<in> set ''.,;:!?'')"

text \<open>Step 3 of the loop body: an option line, or a continuation of the stem.\<close>

definition continueQuestion :: "element_data \<Rightarrow> question \<Rightarrow> pq_state \<Rightarrow> pq_state" where
  "continueQuestion ed q st =
     (let elementText = ed_text ed;
          (q1, types1) =
            (case optionMatch elementText of
               Some (l, rest) \<Rightarrow>
                 (let optionText = trim rest;
                      optionImages = filter (\<lambda>img. str_includes optionText (placeholder (img_id img)))
                                       (st_accumulatedImages st);
                      newOption = \<lparr>letter = toUpperCase l, opt_text = optionText,
                                   opt_images = optionImages\<rparr>;
                      q' = q\<lparr>options := options q @ [newOption]\<rparr>
                  in case refineType q' of
                       Some t \<Rightarrow> (q'\<lparr>qtype := t\<rparr>,
                                  (st_questionTypes st)(st_currentQuestionNumber st \<mapsto> t))
                     | None \<Rightarrow> (q', st_questionTypes st))
             | None \<Rightarrow>
                 (if elementText \<noteq> [] then
                    (let needsSpace = (q_text q \<noteq> [] \<and> \<not> endsWithSpace (q_text q)
                                        \<and> \<not> startsWithPunct elementText)
                     in (q\<lparr>q_text := q_text q @ (if needsSpace then '' '' else []) @ elementText\<rparr>,
                         st_questionTypes st))
                  else (q, st_questionTypes st)));
          q2 = (if ed_images ed \<noteq> [] then q1\<lparr>hasImages := True\<rparr> else q1)
      in st\<lparr>st_currentQuestion := Some q2, st_questionTypes := types1\<rparr>)"

text \<open>
  The loop body after the answer-key check, for the element with index \<open>i\<close>: the
  element's images get their file names and join the accumulated and the global list, then
  the text is dispatched. Content before the first numbered question is skipped.
\<close>

definition processBlock :: "nat \<Rightarrow> element_data \<Rightarrow> pq_state \<Rightarrow> pq_state" where
  "processBlock i ed st =
     (let qn = (case st_currentQuestion st of None \<Rightarrow> 0 | Some q \<Rightarrow> number q);
          named = map (\<lambda>m. m\<lparr>filename :=
                     generateImageFilename qn
                       (''elem'' @ natToString i @ ''_img'' @ take 4 (img_id m))
                       (img_id m) (getExtensionFromMimeType (contentType m))\<rparr>) (ed_images ed);
          ed' = ed\<lparr>ed_images := named\<rparr>;
          st1 = st\<lparr>st_accumulatedImages := st_accumulatedImages st @ named,
                   st_allImages := st_allImages st @ named\<rparr>
      in case questionStartMatch (ed_text ed) of
           Some (ds, rest) \<Rightarrow> startQuestion (ed_text ed) ds rest st1
         | None \<Rightarrow>
             (case st_currentQuestion st1 of
                Some q \<Rightarrow> continueQuestion ed' q st1
              | None \<Rightarrow> st1))"

text \<open>
  The loop over the body's children. An element with no text and no image is skipped; the
  answer-key header ends the loop; \<open>i\<close> is the index of the child in the body.
\<close>

fun parseLoop :: "uuid_supply \<Rightarrow> nat \<Rightarrow> element list \<Rightarrow> pq_state \<Rightarrow> pq_state" where
  "parseLoop uuid i [] st = st"
| "parseLoop uuid i (e # es) st =
     (case processElement uuid (st_uuidCounter st) e of
        (ed, k) \<Rightarrow>
          (let st1 = st\<lparr>st_uuidCounter := k\<rparr> in
           if ed_text ed = [] \<and> ed_images ed = [] then parseLoop uuid (Suc i) es st1
           else if matchAnswerKeyPattern (ed_text ed) then st1
           else parseLoop uuid (Suc i) es (processBlock i ed st1)))"

definition initialState :: "nat \<Rightarrow> pq_state" where
  "initialState k =
     \<lparr>st_questions = [], st_allImages = [], st_currentQuestion = None,
      st_accumulatedImages = [], st_currentQuestionNumber = 0,
      st_questionTypes = Map.empty, st_uuidCounter = k\<rparr>"

text \<open>
  \<^verbatim>\<open>parseQuestions()\<close> on a document body, with the uuid supply and its counter. The type
  map is cleared at the start and returned with the result, as the later stages read it.
  When no question was found the function warns and returns the empty list: the
  \<^verbatim>\<open>throw\<close> in that branch is commented out in the source.
\<close>

definition parseQuestions :: "uuid_supply \<Rightarrow> nat \<Rightarrow> element list \<Rightarrow> parse_result" where
  "parseQuestions uuid k body =
     (let st = parseLoop uuid 0 body (initialState k);
          qs = (case st_currentQuestion st of
                  None \<Rightarrow> st_questions st
                | Some q \<Rightarrow> st_questions st @ [finalizeQuestion q (st_accumulatedImages st)])
      in \<lparr>pr_questions = qs, pr_images = st_allImages st,
          pr_questionTypes = st_questionTypes st, pr_uuidCounter = st_uuidCounter st\<rparr>)"

section \<open>AnswerKeyParsing.gs\<close>

subsection \<open>Header and line cleaning\<close>

text \<open>
  \<^verbatim>\<open>isAnswerKeyHeader(text)\<close>: the empty string is falsy; otherwise one of the three
  patterns \<^verbatim>\<open>/^\s*ANSWER\s+KEY\s*:?\s*$/i\<close>, \<^verbatim>\<open>/^\s*ANSWERS\s*:?\s*$/i\<close>,
  \<^verbatim>\<open>/^\s*KEY\s*:?\s*$/i\<close> must match the trimmed text.
\<close>

definition matchWordColonEnd :: "string \<Rightarrow> string \<Rightarrow> bool" where
  "matchWordColonEnd w s =
     (case ciPrefix w (dropWhile isSpace s) of None \<Rightarrow> False | Some r \<Rightarrow> restIsColonEnd r)"

definition isAnswerKeyHeader :: "string \<Rightarrow> bool" where
  "isAnswerKeyHeader txt =
     (if txt = [] then False
      else (let t = trim txt in
            matchAnswerKeyPattern t \<or> matchWordColonEnd ''ANSWERS'' t \<or> matchWordColonEnd ''KEY'' t))"

text \<open>
  \<^verbatim>\<open>s.replace(/^WORD\s*[:\-]?\s*/i, '')\<close>: an anchored prefix is removed when it is there.
\<close>

definition stripPrefixWord :: "string \<Rightarrow> string \<Rightarrow> string" where
  "stripPrefixWord w s =
     (case ciPrefix w s of
        None \<Rightarrow> s
      | Some r \<Rightarrow>
          (case dropWhile isSpace r of
             [] \<Rightarrow> []
           | c # r' \<Rightarrow> if c = CHR '':'' \<or> c = CHR ''-'' then dropWhile isSpace r' else c # r'))"

text \<open>
  \<^verbatim>\<open>s.replace(/\s+/g, ' ')\<close>: every run of white space becomes one space (the last
  code unit of a run writes the space, the ones before it write nothing).
\<close>

fun collapseWhitespace :: "string \<Rightarrow> string" where
  "collapseWhitespace [] = []"
| "collapseWhitespace (c # cs) =
     (if isSpace c then
        (if cs \<noteq> [] \<and> isSpace (hd cs) then collapseWhitespace cs
         else CHR '' '' # collapseWhitespace cs)
      else c # collapseWhitespace cs)"

text \<open>
  \<^verbatim>\<open>cleanAnswerKeyText\<close>. The last replacement removes U+200B to U+200D and U+FEFF, none
  of which is a code unit below 256, so it changes nothing here.
\<close>

definition cleanAnswerKeyText :: "string \<Rightarrow> string" where
  "cleanAnswerKeyText txt =
     (if txt = [] then []
      else collapseWhitespace (stripPrefixWord ''key'' (stripPrefixWord ''answer'' (trim txt))))"

subsection \<open>Decoding one line\<close>

text \<open>
  The answer data, shaped as the JavaScript values are: a string, an array of strings, a
  number, or an array of \<^verbatim>\<open>{premise, response}\<close> objects. A number is kept as the decimal
  literal \<^verbatim>\<open>parseFloat\<close> read; its floating-point value is not modelled.
\<close>

record match_pair =
  premise :: string
  response :: string

datatype answer_data =
    StringAnswer string
  | StringListAnswer "string list"
  | NumberAnswer string
  | PairListAnswer "match_pair list"

text \<open>\<^verbatim>\<open>/^(\d+)\s*[.)-]\s*(.*)/\<close> on the cleaned line.\<close>

definition answerLineMatch :: "string \<Rightarrow> (string \<times> string) option" where
  "answerLineMatch s =
     (let ds = takeWhile isDigit s
      in if ds = [] then None
         else (case dropWhile isSpace (dropWhile isDigit s) of
                 [] \<Rightarrow> None
               | c # r \<Rightarrow>
                   if isMarkerPunct c then Some (ds, restOfLine (dropWhile isSpace r)) else None))"

text \<open>\<^verbatim>\<open>/^([A-Za-z])\b/\<close>: a letter followed by no word character.\<close>

definition mcMatch :: "string \<Rightarrow> string option" where
  "mcMatch s =
     (case s of
        [] \<Rightarrow> None
      | c # r \<Rightarrow>
          if isAlpha c \<and> (case r of [] \<Rightarrow> True | d # r' \<Rightarrow> \<not> isWordChar d) then Some [c]
          else None)"

text \<open>The literal that \<^verbatim>\<open>parseFloat\<close> reads at the head of a string, \<open>None\<close> for NaN.\<close>

definition scanExponent :: "string \<Rightarrow> string" where
  "scanExponent s =
     (case s of
        [] \<Rightarrow> []
      | e # r \<Rightarrow>
          if e = CHR ''e'' \<or> e = CHR ''E'' then
            (let sg = (case r of
                         [] \<Rightarrow> []
                       | c # r' \<Rightarrow> if c = CHR ''+'' \<or> c = CHR ''-'' then [c] else []);
                 ds = takeWhile isDigit (drop (length sg) r)
             in if ds = [] then [] else e # sg @ ds)
          else [])"

definition scanUnsigned :: "string \<Rightarrow> string option" where
  "scanUnsigned s =
     (if take 8 s = ''Infinity'' then Some ''Infinity''
      else (let ip = takeWhile isDigit s in
            case dropWhile isDigit s of
              [] \<Rightarrow> if ip = [] then None else Some ip
            | c # r \<Rightarrow>
                if c = CHR ''.'' then
                  (let fp = takeWhile isDigit r in
                   if ip = [] \<and> fp = [] then None
                   else Some (ip @ ''.'' @ fp @ scanExponent (dropWhile isDigit r)))
                else if ip = [] then None
                else Some (ip @ scanExponent (c # r))))"

definition parseFloat :: "string \<Rightarrow> string option" where
  "parseFloat s =
     (case dropWhile isSpace s of
        [] \<Rightarrow> None
      | c # r \<Rightarrow>
          if c = CHR ''+'' \<or> c = CHR ''-'' then map_option ((#) c) (scanUnsigned r)
          else scanUnsigned (c # r))"

text \<open>\<^verbatim>\<open>/^([A-Za-z]+)\s*[-=]\s*(\S+)/\<close> on a trimmed pair token.\<close>

definition pairMatch :: "string \<Rightarrow> (string \<times> string) option" where
  "pairMatch s =
     (let p = takeWhile isAlpha s
      in if p = [] then None
         else (case dropWhile isSpace (dropWhile isAlpha s) of
                 [] \<Rightarrow> None
               | c # r \<Rightarrow>
                   if c = CHR ''-'' \<or> c = CHR ''='' then
                     (let resp = takeWhile (\<lambda>d. \<not> isSpace d) (dropWhile isSpace r)
                      in if resp = [] then None else Some (p, resp))
                   else None))"

text \<open>
  The loop of the MATCHING case over the pair tokens: a token that matches pushes one pair,
  a token that does not is skipped (with a warning) and the loop goes on.
\<close>

fun matchingLoop :: "string list \<Rightarrow> match_pair list \<Rightarrow> match_pair list" where
  "matchingLoop [] parsedAnswerData = parsedAnswerData"
| "matchingLoop (pairStr # pairs) parsedAnswerData =
     (case pairMatch (trim pairStr) of
        Some (a, b) \<Rightarrow>
          matchingLoop pairs (parsedAnswerData @ [\<lparr>premise = trim a, response = trim b\<rparr>])
      | None \<Rightarrow> matchingLoop pairs parsedAnswerData)"

text \<open>\<^verbatim>\<open>split(...).map(s => s.trim()).filter(s => s.length > 0)\<close>.\<close>

definition splitTrimNonEmpty :: "(char \<Rightarrow> bool) \<Rightarrow> string \<Rightarrow> string list" where
  "splitTrimNonEmpty p s = filter (\<lambda>a. a \<noteq> []) (map trim (splitOn p s))"

text \<open>
  \<^verbatim>\<open>split(/\s+/)\<close>: the separators are the maximal runs of white space (the last code
  unit of a run closes the piece before it).
\<close>

fun splitOnSpaces :: "string \<Rightarrow> string list" where
  "splitOnSpaces [] = [[]]"
| "splitOnSpaces (c # cs) =
     (if isSpace c then
        (if cs \<noteq> [] \<and> isSpace (hd cs) then splitOnSpaces cs else [] # splitOnSpaces cs)
      else (case splitOnSpaces cs of [] \<Rightarrow> [[c]] | w # ws \<Rightarrow> (c # w) # ws))"

text \<open>The payload of one line, decoded for a question type; \<open>None\<close> is the rejected line.\<close>

definition decodeAnswer :: "question_type \<Rightarrow> string \<Rightarrow> answer_data option" where
  "decodeAnswer t answerText =
     (case t of
        MULTIPLE_CHOICE_SINGLE \<Rightarrow> map_option (\<lambda>l. StringAnswer (toUpperCase l)) (mcMatch answerText)
      | TRUE_FALSE \<Rightarrow> map_option (\<lambda>l. StringAnswer (toUpperCase l)) (mcMatch answerText)
      | MULTIPLE_CHOICE_MULTI \<Rightarrow>
          (let multiMatch = filter isAlpha (toUpperCase answerText)
           in if multiMatch = [] then None
              else Some (StringListAnswer
                           (map (\<lambda>c. [c]) (sort_key (\<lambda>c. of_char c :: nat) (remdups multiMatch)))))
      | FILL_IN_BLANK_TEXT \<Rightarrow> Some (StringListAnswer (splitTrimNonEmpty isCommaSemi answerText))
      | SHORT_ANSWER \<Rightarrow> Some (StringListAnswer (splitTrimNonEmpty isCommaSemi answerText))
      | ESSAY \<Rightarrow> Some (StringListAnswer (splitTrimNonEmpty isCommaSemi answerText))
      | FILL_IN_BLANK_NUMERIC \<Rightarrow> map_option NumberAnswer (parseFloat answerText)
      | MATCHING \<Rightarrow>
          (let parsedAnswerData = matchingLoop (splitOn isCommaSemi answerText) []
           in if parsedAnswerData = [] then None else Some (PairListAnswer parsedAnswerData))
      | ORDERING \<Rightarrow>
          (let sequence =
                 (if CHR '','' \<in> set answerText \<or> CHR '';'' \<in> set answerText
                  then splitTrimNonEmpty isCommaSemi answerText
                  else filter (\<lambda>a. a \<noteq> []) (map trim (splitOnSpaces answerText)))
           in if sequence = [] then None else Some (StringListAnswer sequence)))"

record parsed_line =
  pl_number :: nat
  pl_answer :: answer_data

text \<open>\<^verbatim>\<open>parseAnswerLine(lineText)\<close>, reading the type map that question parsing filled.\<close>

definition parseAnswerLine :: "type_map \<Rightarrow> string \<Rightarrow> parsed_line option" where
  "parseAnswerLine questionTypes lineText =
     (if lineText = [] \<or> trim lineText = [] then None
      else (case answerLineMatch (cleanAnswerKeyText lineText) of
              None \<Rightarrow> None
            | Some (ds, rest) \<Rightarrow>
                (let questionNumber = parseInt ds; answerText = trim rest in
                 case questionTypes questionNumber of
                   None \<Rightarrow> None
                 | Some t \<Rightarrow>
                     (case decodeAnswer t answerText of
                        None \<Rightarrow> None
                      | Some a \<Rightarrow> Some \<lparr>pl_number = questionNumber, pl_answer = a\<rparr>))))"

subsection \<open>The answer-key section\<close>

text \<open>
  The state of the loop of \<^verbatim>\<open>parseAnswerKey\<close>: the answer map, the two flags, and the
  warnings of the loop itself (the decoder's own console output is not recorded).
\<close>

datatype warning = DuplicateAnswer nat | HeaderNotFound

record ak_state =
  ak_answers :: "nat \<rightharpoonup> answer_data"
  ak_foundKey :: bool
  ak_startParsingAnswers :: bool
  ak_warnings :: "warning list"

text \<open>\<^verbatim>\<open>getText()\<close> of a paragraph or list item: its text runs, without the images.\<close>

definition getText :: "child list \<Rightarrow> string" where
  "getText cs = concat (map (\<lambda>c. case c of TextChild t \<Rightarrow> t | _ \<Rightarrow> []) cs)"

text \<open>Stage 2 for one decoded line: warn when the number is there already, then store.\<close>

definition storeAnswer :: "parsed_line \<Rightarrow> ak_state \<Rightarrow> ak_state" where
  "storeAnswer parsedLine st =
     st\<lparr>ak_warnings := ak_warnings st @
            (if ak_answers st (pl_number parsedLine) \<noteq> None
             then [DuplicateAnswer (pl_number parsedLine)] else []),
        ak_answers := (ak_answers st)(pl_number parsedLine \<mapsto> pl_answer parsedLine)\<rparr>"

definition answerStep :: "type_map \<Rightarrow> string \<Rightarrow> ak_state \<Rightarrow> ak_state" where
  "answerStep questionTypes txt st =
     (if \<not> ak_foundKey st \<and> isAnswerKeyHeader txt
      then st\<lparr>ak_foundKey := True, ak_startParsingAnswers := True\<rparr>
      else if ak_startParsingAnswers st \<and> txt \<noteq> [] then
        (case parseAnswerLine questionTypes txt of
           Some parsedLine \<Rightarrow> storeAnswer parsedLine st
         | None \<Rightarrow> st)
      else st)"

fun answerLoop :: "type_map \<Rightarrow> element list \<Rightarrow> ak_state \<Rightarrow> ak_state" where
  "answerLoop questionTypes [] st = st"
| "answerLoop questionTypes (Paragraph cs # es) st =
     answerLoop questionTypes es (answerStep questionTypes (trim (getText cs)) st)"
| "answerLoop questionTypes (ListItem cs # es) st =
     answerLoop questionTypes es (answerStep questionTypes (trim (getText cs)) st)"
| "answerLoop questionTypes (OtherElement # es) st = answerLoop questionTypes es st"

definition parseAnswerKey :: "type_map \<Rightarrow> element list \<Rightarrow> ak_state" where
  "parseAnswerKey questionTypes body =
     (let st = answerLoop questionTypes body
                 \<lparr>ak_answers = Map.empty, ak_foundKey = False,
                  ak_startParsingAnswers = False, ak_warnings = []\<rparr>
      in if ak_foundKey st then st else st\<lparr>ak_warnings := ak_warnings st @ [HeaderNotFound]\<rparr>)"

section \<open>Image placeholders in exported text (Utilities.gs)\<close>

text \<open>
  The successive matches of \<^verbatim>\<open>/\[IMG:([^\]]+)\]/g\<close>: the ids, in order. After a match
  the scan resumes behind its closing bracket, otherwise one code unit further.
\<close>

function findPlaceholders :: "string \<Rightarrow> string list" where
  "findPlaceholders [] = []"
| "findPlaceholders (c # cs) =
     (if take 5 (c # cs) = ''[IMG:'' then
        (let ident = takeWhile (\<lambda>d. d \<noteq> CHR '']'') (drop 5 (c # cs));
             after = dropWhile (\<lambda>d. d \<noteq> CHR '']'') (drop 5 (c # cs))
         in if ident \<noteq> [] \<and> after \<noteq> [] then ident # findPlaceholders (tl after)
            else findPlaceholders cs)
      else findPlaceholders cs)"
  by pat_completeness auto
termination
proof (relation "measure length")
  show "wf (measure length)" by simp
next
  fix c cs x xa
  assume a: "xa = dropWhile (\<lambda>d. d \<noteq> CHR '']'') (drop 5 (c # cs))"
  have "length xa \<le> length (drop 5 (c # cs))" unfolding a by (rule length_dropWhile_le)
  also have "\<dots> \<le> length cs" by simp
  finally have "length (tl xa) < length (c # cs)" by simp
  then show "(tl xa, c # cs) \<in> measure length" by simp
qed auto

text \<open>\<^verbatim>\<open>s.replace(pattern, replacement)\<close> with a string pattern: the first occurrence.\<close>

fun replaceFirst :: "string \<Rightarrow> string \<Rightarrow> string \<Rightarrow> string" where
  "replaceFirst pat rep [] = (if pat = [] then rep else [])"
| "replaceFirst pat rep (c # cs) =
     (if take (length pat) (c # cs) = pat then rep @ drop (length pat) (c # cs)
      else c # replaceFirst pat rep cs)"

text \<open>The image of the lookup map for an id: the last image of the array with that id.\<close>

definition lookupImage :: "image list \<Rightarrow> string \<Rightarrow> image option" where
  "lookupImage imgs ident =
     (case filter (\<lambda>m. img_id m \<noteq> [] \<and> img_id m = ident) imgs of
        [] \<Rightarrow> None
      | ms \<Rightarrow> Some (last ms))"

definition imgTag :: "image \<Rightarrow> string" where
  "imgTag m =
     ''<img src='' @ [CHR 0x22] @ sanitizeHtml (Some (''resources/'' @ filename m)) @ [CHR 0x22]
       @ '' alt='' @ [CHR 0x22, CHR 0x22]
       @ (if width m \<noteq> 0 \<and> height m \<noteq> 0
          then '' width='' @ [CHR 0x22] @ natToString (width m) @ [CHR 0x22]
               @ '' height='' @ [CHR 0x22] @ natToString (height m) @ [CHR 0x22]
          else [])
       @ '' />''"

definition replaceImagePlaceholdersWithHtml :: "string \<Rightarrow> image list \<Rightarrow> string" where
  "replaceImagePlaceholdersWithHtml txt questionImages =
     (if txt = [] \<or> questionImages = [] then txt
      else foldl (\<lambda>processedText ident.
                    (case lookupImage questionImages ident of
                       None \<Rightarrow> processedText
                     | Some m \<Rightarrow>
                         if filename m \<noteq> []
                         then replaceFirst (placeholder ident) (imgTag m) processedText
                         else processedText))
             txt (findPlaceholders txt))"

section \<open>Code.gs: the combiner\<close>

record question_answer = question +
  correctAnswer :: "answer_data option"

text \<open>
  \<^verbatim>\<open>combineQuestionsAndAnswers(questions, answerMap)\<close>: every question is copied with the
  answer of its number, or \<^verbatim>\<open>null\<close>. The guards for arguments of the wrong kind and for a
  question without a number cannot fire on values of these types.
\<close>

definition combineQuestionsAndAnswers ::
  "question list \<Rightarrow> (nat \<rightharpoonup> answer_data) \<Rightarrow> question_answer list" where
  "combineQuestionsAndAnswers qs answerMap =
     map (\<lambda>q. \<lparr>number = number q, qtype = qtype q, q_text = q_text q, options = options q,
               images = images q, hasImages = hasImages q,
               correctAnswer = answerMap (number q)\<rparr>) qs"

section \<open>QTIExport.gs: multiple choice and true/false items\<close>

text \<open>
  The item document is kept as the values its template interpolates: the identifiers, the
  stem, one \<^verbatim>\<open>response_label\<close> per option, and the \<^verbatim>\<open>respcondition\<close> elements of the
  \<^verbatim>\<open>resprocessing\<close> block in document order, each with its condition and the value its
  \<^verbatim>\<open>setvar\<close> gives to SCORE.
\<close>

datatype condition =
    VarEqual string string
  | NotVarEqual string string
  | OtherCondition

record respcondition =
  rc_condition :: condition
  rc_setScore :: nat

record response_label =
  rl_ident :: string
  rl_mattext :: string

record qti_item =
  it_ident :: string
  it_title :: string
  it_mattext :: string
  it_response_lid :: string
  it_response_labels :: "response_label list"
  it_respconditions :: "respcondition list"

definition cdata :: "string \<Rightarrow> string" where
  "cdata s = ''<![CDATA['' @ s @ '']]>''"

text \<open>\<^verbatim>\<open>`choice_${opt.letter || index + 1}`\<close>.\<close>

definition choiceIdent :: "option_rec \<Rightarrow> nat \<Rightarrow> string" where
  "choiceIdent opt index =
     ''choice_'' @ (if letter opt \<noteq> [] then letter opt else natToString (index + 1))"

text \<open>\<^verbatim>\<open>q.correctAnswer && opt.letter && q.correctAnswer === opt.letter\<close>.\<close>

definition isCorrectOption :: "answer_data option \<Rightarrow> option_rec \<Rightarrow> bool" where
  "isCorrectOption ca opt =
     (case ca of
        Some (StringAnswer s) \<Rightarrow> s \<noteq> [] \<and> letter opt \<noteq> [] \<and> s = letter opt
      | _ \<Rightarrow> False)"

text \<open>
  The \<^verbatim>\<open>forEach\<close> over the options: the labels written so far and the identifier of the
  correct choice found so far.
\<close>

fun optionsLoop ::
  "answer_data option \<Rightarrow> option_rec list \<Rightarrow> nat \<Rightarrow> response_label list \<times> string option
     \<Rightarrow> response_label list \<times> string option" where
  "optionsLoop ca [] index acc = acc"
| "optionsLoop ca (opt # opts) index (choicesXml, correctChoiceIdentifier) =
     (let optionText = replaceImagePlaceholdersWithHtml
                         (if opt_text opt \<noteq> [] then opt_text opt else ''Option '' @ letter opt)
                         (opt_images opt)
      in optionsLoop ca opts (Suc index)
           (choicesXml @ [\<lparr>rl_ident = choiceIdent opt index, rl_mattext = cdata optionText\<rparr>],
            if isCorrectOption ca opt then Some (choiceIdent opt index)
            else correctChoiceIdentifier))"

text \<open>The placeholder options written when the question has none.\<close>

definition placeholderOptions :: "question_type \<Rightarrow> option_rec list" where
  "placeholderOptions t =
     (if t = TRUE_FALSE
      then [\<lparr>letter = ''T'', opt_text = ''True'', opt_images = []\<rparr>,
            \<lparr>letter = ''F'', opt_text = ''False'', opt_images = []\<rparr>]
      else [\<lparr>letter = ''A'', opt_text = ''Option A'', opt_images = []\<rparr>,
            \<lparr>letter = ''B'', opt_text = ''Option B'', opt_images = []\<rparr>])"

text \<open>
  \<^verbatim>\<open>QTI_createMultipleChoiceSingleItem(q, itemIdent, imageFilenameMap)\<close>; the third
  parameter is not read by the body. After the loop, the two branches that default to the
  first option differ in the warning they log only, so they are one branch here.
\<close>

definition QTI_createMultipleChoiceSingleItem :: "question_answer \<Rightarrow> string \<Rightarrow> qti_item" where
  "QTI_createMultipleChoiceSingleItem q itemIdent =
     (let questionNumber =
            (if number q \<noteq> 0 then natToString (number q)
             else (case splitOn (\<lambda>c. c = CHR ''_'') itemIdent of
                     a # b # r \<Rightarrow> b
                   | _ \<Rightarrow> ''undefined''));
          responseIdent = ''response_'' @ itemIdent;
          stemText = replaceImagePlaceholdersWithHtml
                       (if q_text q \<noteq> [] then q_text q else ''Question '' @ questionNumber)
                       (images q);
          opts = (if options q = [] then placeholderOptions (qtype q) else options q);
          ca = (if options q = [] \<and> correctAnswer q = None
                then Some (StringAnswer (letter (hd opts)))
                else correctAnswer q);
          (choicesXml, found) = optionsLoop ca opts 0 ([], None);
          correctChoiceIdentifier =
            (if found = None \<and> opts \<noteq> [] then Some (choiceIdent (hd opts) 0)
             else found)
      in \<lparr>it_ident = itemIdent,
          it_title = ''Question '' @ questionNumber,
          it_mattext = cdata stemText,
          it_response_lid = responseIdent,
          it_response_labels = choicesXml,
          it_respconditions =
            (case correctChoiceIdentifier of
               Some cid \<Rightarrow>
                 [\<lparr>rc_condition = VarEqual responseIdent cid, rc_setScore = 100\<rparr>,
                  \<lparr>rc_condition = NotVarEqual responseIdent cid, rc_setScore = 0\<rparr>]
             | None \<Rightarrow> [\<lparr>rc_condition = OtherCondition, rc_setScore = 0\<rparr>])\<rparr>)"

section \<open>Code.gs: the orchestrator\<close>

text \<open>
  An error is \<^verbatim>\<open>AppError(internalMessage, userMessage)\<close> or a plain \<^verbatim>\<open>Error(message)\<close>.
  The calls that leave the script are recorded as events, in order: the project folder,
  the call of the QTI 1.2 package exporter with its argument, and the alert of the error
  handler. The exporter works on the Drive service; its result is given by \<open>exporter\<close>.
\<close>

datatype app_error = AppError string string | Error string

datatype event =
    ProjectFolderCreated
  | ExportInvoked "question_answer list"
  | UiAlert string string

record export_result =
  ex_success :: bool
  ex_message :: string

record conversion_result =
  cr_success :: bool
  cr_message :: string

text \<open>The \<^verbatim>\<open>try\<close> block of \<^verbatim>\<open>startConversion\<close>: the error thrown or the success message.\<close>

definition conversionBody ::
  "uuid_supply \<Rightarrow> nat \<Rightarrow> element list \<Rightarrow> (question_answer list \<Rightarrow> image list \<Rightarrow> export_result)
     \<Rightarrow> (app_error + string) \<times> event list" where
  "conversionBody uuid k body exporter =
     (let parsed = parseQuestions uuid k body in
      if pr_questions parsed = [] then
        (Inl (AppError ''Parsing Error'' ''No questions could be parsed from the document.''),
         [ProjectFolderCreated])
      else
        (let answerMap = ak_answers (parseAnswerKey (pr_questionTypes parsed) body);
             combinedData = combineQuestionsAndAnswers (pr_questions parsed) answerMap;
             exportResult = exporter combinedData (pr_images parsed);
             events = [ProjectFolderCreated, ExportInvoked combinedData]
         in if \<not> ex_success exportResult then
              (Inl (Error (''QTI package creation failed. Reason: '' @
                      (if ex_message exportResult \<noteq> [] then ex_message exportResult
                       else ''Unknown error from exporter.''))), events)
            else
              (Inr (''Conversion to QTI 1.2 completed successfully for '' @
                      natToString (length combinedData) @ '' questions.''), events)))"

definition userMessageOf :: "app_error \<Rightarrow> string" where
  "userMessageOf e =
     (case e of
        AppError internalMessage userMessage \<Rightarrow>
          (if userMessage \<noteq> [] then userMessage else internalMessage)
      | Error message \<Rightarrow> ''An unexpected error occurred: '' @ message)"

definition startConversion ::
  "uuid_supply \<Rightarrow> nat \<Rightarrow> element list \<Rightarrow> (question_answer list \<Rightarrow> image list \<Rightarrow> export_result)
     \<Rightarrow> conversion_result \<times> event list" where
  "startConversion uuid k body exporter =
     (case conversionBody uuid k body exporter of
        (Inr message, events) \<Rightarrow> (\<lparr>cr_success = True, cr_message = message\<rparr>, events)
      | (Inl e, events) \<Rightarrow>
          (\<lparr>cr_success = False, cr_message = ''Error: '' @ userMessageOf e\<rparr>,
           events @ [UiAlert ''QTI Conversion Error'' (userMessageOf e)]))"

text \<open>
  \<^verbatim>\<open>QTIExport_createQTIPackage\<close> names the item of the question at position \<open>index\<close>
  \<^verbatim>\<open>`item_${q.number || (index + 1)}`\<close>.
\<close>

definition itemIdentifier :: "question_answer \<Rightarrow> nat \<Rightarrow> string" where
  "itemIdentifier q index =
     ''item_'' @ natToString (if number q \<noteq> 0 then number q else index + 1)"

section \<open>Documents used in the scenarios\<close>

text \<open>A body whose children are paragraphs of plain text, one per block.\<close>

definition para :: "string \<Rightarrow> element" where
  "para s = Paragraph [TextChild s]"

definition scenarioA :: "element list" where
  "scenarioA = map para [''1. What is 2+2?'', ''A. 3'', ''B. 4'', ''Answer Key'', ''1. B'']"

definition scenarioAnswers :: "element list" where
  "scenarioAnswers = map para [''1. What is 2+2?'', ''A. 3'', ''B. 4'', ''Answers'', ''1. B'']"

definition scenarioKey :: "element list" where
  "scenarioKey = map para [''1. What is 2+2?'', ''A. 3'', ''B. 4'', ''Key'', ''1. B'']"

section \<open>Specification-level readings used in the theorems\<close>

text \<open>
  The pair a single token of a MATCHING payload stands for, in the words of the
  specification: the token is trimmed and must read \<^verbatim>\<open>token (= or -) token\<close>; a malformed
  token stands for no pair.
\<close>

definition pairOfToken :: "string \<Rightarrow> match_pair option" where
  "pairOfToken tok = map_option (\<lambda>(a, b). \<lparr>premise = a, response = b\<rparr>) (pairMatch (trim tok))"

definition matchingLine :: string where
  "matchingLine = ''3. A=3, B - 1; junk, 7=x, C=2 9''"

text \<open>
  The lines of the answer-key section, read off the body: the trimmed text of every
  paragraph and list item after the first one that is an answer-key header; and, for a
  question number, the decodings of those lines that carry this number, in document order.
\<close>

definition elementText :: "element \<Rightarrow> string option" where
  "elementText e =
     (case e of
        Paragraph cs \<Rightarrow> Some (trim (getText cs))
      | ListItem cs \<Rightarrow> Some (trim (getText cs))
      | OtherElement \<Rightarrow> None)"

definition sectionLines :: "element list \<Rightarrow> string list" where
  "sectionLines body =
     tl (dropWhile (\<lambda>t. \<not> isAnswerKeyHeader t) (List.map_filter elementText body))"

definition decodedFor :: "type_map \<Rightarrow> element list \<Rightarrow> nat \<Rightarrow> parsed_line list" where
  "decodedFor questionTypes body n =
     filter (\<lambda>pl. pl_number pl = n)
       (List.map_filter (parseAnswerLine questionTypes) (sectionLines body))"





definition oneOptionDocument :: "element list" where
  "oneOptionDocument = map para [''1. What is 2+2?'', ''A. 3'']"

text \<open>
  Scenario D (the answer line has no separator after the number), a true/false question
  without options and without an answer key, and the entries the combiner produces for a
  body (no image occurs in these bodies, so the uuid supply is immaterial).
\<close>

definition scenarioD :: "element list" where
  "scenarioD = map para [''1. What is 2+2?'', ''A. 3'', ''B. 4'', ''Answer Key'', ''1 B'']"

definition irOf :: "element list \<Rightarrow> question_answer list" where
  "irOf body =
     (let parsed = parseQuestions (\<lambda>n. []) 0 body
      in combineQuestionsAndAnswers (pr_questions parsed)
           (ak_answers (parseAnswerKey (pr_questionTypes parsed) body)))"

definition trueFalseNoOptions :: "element list" where
  "trueFalseNoOptions = map para [''1. True or false: the sky is blue.'']"

text \<open>
  The blocks of a body as \<^verbatim>\<open>processElement\<close> returns them, each with the uuid counter the
  loop has reached, and the number of a block that starts with a leading-integer marker.
\<close>

fun blocksOf :: "uuid_supply \<Rightarrow> nat \<Rightarrow> element list \<Rightarrow> element_data list" where
  "blocksOf uuid k [] = []"
| "blocksOf uuid k (e # es) =
     (case processElement uuid k e of (ed, k') \<Rightarrow> ed # blocksOf uuid k' es)"

definition markerNumber :: "element_data \<Rightarrow> nat option" where
  "markerNumber ed = map_option (\<lambda>(ds, rest). parseInt ds) (questionStartMatch (ed_text ed))"




definition documentMarkers :: "uuid_supply \<Rightarrow> nat \<Rightarrow> element list \<Rightarrow> nat list" where
  "documentMarkers uuid k body = List.map_filter markerNumber (blocksOf uuid k body)"

text \<open>The numbers of the finalized drafts of a parser state, then of its current draft.\<close>

definition allNumbers :: "pq_state \<Rightarrow> nat list" where
  "allNumbers st =
     map number (st_questions st) @
     (case st_currentQuestion st of None \<Rightarrow> [] | Some q \<Rightarrow> [number q])"



text \<open>A document in which no block starts with a leading-integer marker.\<close>

definition unmarkedDocument :: "element list" where
  "unmarkedDocument = map para [''Welcome to the quiz'', ''A. x'', ''Answer Key'', ''A'']"

section \<open>Texts as tokens: literal characters and image placeholders\<close>

text \<open>
  The text of a block is the concatenation of its text runs and of one placeholder per
  inline image. To compare two runs of the parser that mint different ids, a text is read
  as a list of tokens: a literal code unit, or the placeholder of the image with a given
  index in the uuid supply. \<open>render g\<close> spells the tokens with the ids \<open>g\<close>; \<open>lits\<close> keeps
  the literal code units only.
\<close>

datatype tok = Lit char | Img nat

fun render :: "(nat \<Rightarrow> string) \<Rightarrow> tok list \<Rightarrow> string" where
  "render u [] = []"
| "render u (Lit c # T) = c # render u T"
| "render u (Img j # T) = placeholder (u j) @ render u T"

fun lits :: "tok list \<Rightarrow> string" where
  "lits [] = []"
| "lits (Lit c # T) = c # lits T"
| "lits (Img j # T) = lits T"

text \<open>
  An image id is a uuid without its dashes: 32 hexadecimal digits. The characters of a
  placeholder are those digits and the characters of \<^verbatim>\<open>[IMG:]\<close>.
\<close>

definition hexChar :: "char \<Rightarrow> bool" where
  "hexChar c = (isDigit c \<or> (97 \<le> (of_char c :: nat) \<and> (of_char c :: nat) \<le> 102)
                 \<or> (65 \<le> (of_char c :: nat) \<and> (of_char c :: nat) \<le> 70))"

definition hexId :: "string \<Rightarrow> bool" where
  "hexId x = (length x = 32 \<and> list_all hexChar x)"

definition phChar :: "char \<Rightarrow> bool" where
  "phChar c = (hexChar c \<or> c \<in> set ''[IMG:]'')"

text \<open>
  A token list is well formed for a supply when each of its images has such an id. A
  character class is lifted to tokens in two ways: \<open>liftF\<close> rejects a placeholder and
  \<open>liftT\<close> accepts it.
\<close>

definition wfToks :: "(nat \<Rightarrow> string) \<Rightarrow> tok list \<Rightarrow> bool" where
  "wfToks u T = list_all (\<lambda>t. case t of Lit c \<Rightarrow> True | Img j \<Rightarrow> hexId (u j)) T"


definition liftT :: "(char \<Rightarrow> bool) \<Rightarrow> tok \<Rightarrow> bool" where
  "liftT P t = (case t of Lit c \<Rightarrow> P c | Img j \<Rightarrow> True)"






































section \<open>The pipeline on scenario A\<close>

text \<open>
  Claim C1. On the five blocks \<^verbatim>\<open>1. What is 2+2?\<close>, \<^verbatim>\<open>A. 3\<close>, \<^verbatim>\<open>B. 4\<close>, \<^verbatim>\<open>Answer Key\<close>,
  \<^verbatim>\<open>1. B\<close> the structural parse with its type inference, the answer-key parse and the
  combiner give exactly one entry, of type MULTIPLE_CHOICE_SINGLE, with options A and B and
  correct answer \<^verbatim>\<open>B\<close>; in the QTI 1.2 item generated for it the choices are \<^verbatim>\<open>choice_A\<close>
  and \<^verbatim>\<open>choice_B\<close>, and the only response condition that sets SCORE to 100 tests the
  response for equality with \<^verbatim>\<open>choice_B\<close>. No image is in the document, so the result is
  the same for every uuid supply.
\<close>

theorem scenario_A_pipeline:
  "(let parsed = parseQuestions uuid k scenarioA;
        answers = ak_answers (parseAnswerKey (pr_questionTypes parsed) scenarioA);
        ir = combineQuestionsAndAnswers (pr_questions parsed) answers;
        item = QTI_createMultipleChoiceSingleItem (hd ir) (itemIdentifier (hd ir) 0)
    in length ir = 1
       \<and> map qtype ir = [MULTIPLE_CHOICE_SINGLE]
       \<and> map correctAnswer ir = [Some (StringAnswer ''B'')]
       \<and> map letter (options (hd ir)) = [''A'', ''B'']
       \<and> map rl_ident (it_response_labels item) = [''choice_A'', ''choice_B'']
       \<and> filter (\<lambda>rc. rc_setScore rc = 100) (it_respconditions item)
           = [\<lparr>rc_condition = VarEqual ''response_item_1'' ''choice_B'', rc_setScore = 100\<rparr>])"
  by code_simp

section \<open>The answer-key boundary in the structural parser\<close>

text \<open>
  Claim C2. The answer-key parser takes \<^verbatim>\<open>Answers\<close> and \<^verbatim>\<open>Key\<close> for headers, but the
  structural parser tests \<^verbatim>\<open>ANSWER KEY\<close> only: on scenario A with the header replaced by
  \<^verbatim>\<open>Answers\<close> (or \<^verbatim>\<open>Key\<close>) it appends the header to the stem of question 1 and reads the
  answer line \<^verbatim>\<open>1. B\<close> as a second question numbered 1, which also overwrites the type
  recorded for number 1, so that the answer is decoded as a short answer.
\<close>

theorem answers_header_not_a_boundary:
  "isAnswerKeyHeader ''Answers'' \<and> isAnswerKeyHeader ''Key''
   \<and> map (\<lambda>q. (number q, qtype q, q_text q)) (pr_questions (parseQuestions uuid k scenarioAnswers))
       = [(1, MULTIPLE_CHOICE_SINGLE, ''What is 2+2? Answers''), (1, SHORT_ANSWER, ''B'')]
   \<and> map (\<lambda>q. (number q, qtype q, q_text q)) (pr_questions (parseQuestions uuid k scenarioKey))
       = [(1, MULTIPLE_CHOICE_SINGLE, ''What is 2+2? Key''), (1, SHORT_ANSWER, ''B'')]
   \<and> ak_answers (parseAnswerKey (pr_questionTypes (parseQuestions uuid k scenarioAnswers))
         scenarioAnswers) 1 = Some (StringListAnswer [''B''])"
  by code_simp

section \<open>Decoding a MATCHING line\<close>

lemma trim_noop: "s \<noteq> [] \<Longrightarrow> \<not> isSpace (hd s) \<Longrightarrow> \<not> isSpace (last s) \<Longrightarrow> trim s = s"
proof -
  assume a: "s \<noteq> []" "\<not> isSpace (hd s)" "\<not> isSpace (last s)"
  then have 1: "dropWhile isSpace s = s" by (cases s) auto
  from a have "rev s \<noteq> []" "\<not> isSpace (hd (rev s))" by (auto simp: hd_rev)
  then have 2: "dropWhile isSpace (rev s) = rev s" by (cases "rev s") auto
  show ?thesis by (simp add: trim_def 1 2)
qed

lemma isAlpha_not_space: "isAlpha c \<Longrightarrow> \<not> isSpace c"
  by (auto simp: isAlpha_def isUpper_def isLower_def isSpace_def)

lemma trim_all_nonspace: "\<forall>c\<in>set s. \<not> isSpace c \<Longrightarrow> trim s = s"
proof (cases "s = []")
  case True
  then show ?thesis by (simp add: trim_def)
next
  case False
  assume "\<forall>c\<in>set s. \<not> isSpace c"
  with False have "\<not> isSpace (hd s)" "\<not> isSpace (last s)" by auto
  with False show ?thesis by (rule trim_noop)
qed

lemma pairMatch_trimmed:
  assumes "pairMatch s = Some (a, b)"
  shows "trim a = a \<and> trim b = b"
proof -
  from assms have a: "a = takeWhile isAlpha s"
    by (auto simp: pairMatch_def Let_def split: if_splits list.splits)
  from assms obtain r where b: "b = takeWhile (\<lambda>d. \<not> isSpace d) r"
    by (auto simp: pairMatch_def Let_def split: if_splits list.splits)
  have "\<forall>c\<in>set a. \<not> isSpace c"
    unfolding a using isAlpha_not_space by (auto dest: set_takeWhileD)
  moreover have "\<forall>c\<in>set b. \<not> isSpace c"
    unfolding b by (auto dest: set_takeWhileD)
  ultimately show ?thesis by (simp add: trim_all_nonspace)
qed

text \<open>The loop pushes, in order, the pairs of the tokens that stand for one.\<close>

lemma matchingLoop_map_filter:
  "matchingLoop toks acc = acc @ List.map_filter pairOfToken toks"
proof (induction toks arbitrary: acc)
  case Nil
  show ?case by (simp add: List.map_filter_simps)
next
  case (Cons t toks)
  show ?case
  proof (cases "pairMatch (trim t)")
    case None
    then show ?thesis by (simp add: Cons.IH List.map_filter_simps pairOfToken_def)
  next
    case (Some ab)
    obtain a b where ab: "ab = (a, b)" by (cases ab)
    from Some ab pairMatch_trimmed have "trim a = a" "trim b = b" by auto
    with Some ab show ?thesis by (simp add: Cons.IH List.map_filter_simps pairOfToken_def)
  qed
qed

text \<open>
  Claim C7. A line whose number has type MATCHING: the payload is split at every comma and
  semicolon; each token contributes the pair it stands for, independently of the other
  tokens and in order, a malformed token contributes nothing; the line is rejected exactly
  when no pair results, and otherwise yields the pair list under the line's number.
\<close>

theorem matching_line_decoding:
  assumes "lineText \<noteq> []" and "trim lineText \<noteq> []"
    and "answerLineMatch (cleanAnswerKeyText lineText) = Some (ds, rest)"
    and "questionTypes (parseInt ds) = Some MATCHING"
  shows "parseAnswerLine questionTypes lineText =
           (let pairs = List.map_filter pairOfToken (splitOn isCommaSemi (trim rest))
            in if pairs = [] then None
               else Some \<lparr>pl_number = parseInt ds, pl_answer = PairListAnswer pairs\<rparr>)"
  using assms
  by (simp add: parseAnswerLine_def decodeAnswer_def matchingLoop_map_filter Let_def)

theorem matching_line_decoding_witness:
  "parseAnswerLine (Map.empty(3 \<mapsto> MATCHING)) matchingLine =
     Some \<lparr>pl_number = 3,
           pl_answer = PairListAnswer
             [\<lparr>premise = ''A'', response = ''3''\<rparr>, \<lparr>premise = ''B'', response = ''1''\<rparr>,
              \<lparr>premise = ''C'', response = ''2''\<rparr>]\<rparr>"
proof -
  have h1: "matchingLine \<noteq> []" by code_simp
  have h2: "trim matchingLine \<noteq> []" by code_simp
  have h3: "answerLineMatch (cleanAnswerKeyText matchingLine)
              = Some (''3'', ''A=3, B - 1; junk, 7=x, C=2 9'')"
    by code_simp
  have h4: "(Map.empty(3 \<mapsto> MATCHING)) (parseInt ''3'') = Some MATCHING" by code_simp
  have "parseAnswerLine (Map.empty(3 \<mapsto> MATCHING)) matchingLine =
          (let pairs = List.map_filter pairOfToken
                         (splitOn isCommaSemi (trim ''A=3, B - 1; junk, 7=x, C=2 9''))
           in if pairs = [] then None
              else Some \<lparr>pl_number = parseInt ''3'', pl_answer = PairListAnswer pairs\<rparr>)"
    by (rule matching_line_decoding
          [where questionTypes = "Map.empty(3 \<mapsto> MATCHING)", OF h1 h2 h3 h4])
  also have "\<dots> = Some \<lparr>pl_number = 3,
           pl_answer = PairListAnswer
             [\<lparr>premise = ''A'', response = ''3''\<rparr>, \<lparr>premise = ''B'', response = ''1''\<rparr>,
              \<lparr>premise = ''C'', response = ''2''\<rparr>]\<rparr>"
    by code_simp
  finally show ?thesis .
qed

section \<open>Duplicate lines in the answer key\<close>

lemma answerLoop_texts:
  "answerLoop types es st = foldl (\<lambda>s t. answerStep types t s) st (List.map_filter elementText es)"
  by (induction types es st rule: answerLoop.induct)
     (simp_all add: List.map_filter_simps elementText_def)

lemma parseAnswerLine_empty: "parseAnswerLine types [] = None"
  by (simp add: parseAnswerLine_def)

lemma steps_after_header:
  "ak_foundKey st \<Longrightarrow> ak_startParsingAnswers st \<Longrightarrow>
   foldl (\<lambda>s t. answerStep types t s) st ts
     = foldl (\<lambda>s pl. storeAnswer pl s) st (List.map_filter (parseAnswerLine types) ts)"
proof (induction ts arbitrary: st)
  case Nil
  show ?case by (simp add: List.map_filter_simps)
next
  case (Cons t ts)
  show ?case
  proof (cases "parseAnswerLine types t")
    case None
    with Cons.prems have "answerStep types t st = st" by (simp add: answerStep_def)
    with None Cons show ?thesis by (simp add: List.map_filter_simps)
  next
    case (Some pl)
    then have "t \<noteq> []" using parseAnswerLine_empty by auto
    with Some Cons.prems have s: "answerStep types t st = storeAnswer pl st"
      by (simp add: answerStep_def)
    have "ak_foundKey (storeAnswer pl st)" "ak_startParsingAnswers (storeAnswer pl st)"
      using Cons.prems by (simp_all add: storeAnswer_def)
    with Cons.IH s Some show ?thesis by (simp add: List.map_filter_simps)
  qed
qed

lemma steps_before_header:
  "\<not> ak_foundKey st \<Longrightarrow> \<not> ak_startParsingAnswers st \<Longrightarrow>
   foldl (\<lambda>s t. answerStep types t s) st ts
     = (case dropWhile (\<lambda>t. \<not> isAnswerKeyHeader t) ts of
          [] \<Rightarrow> st
        | h # rest \<Rightarrow>
            foldl (\<lambda>s pl. storeAnswer pl s)
              (st\<lparr>ak_foundKey := True, ak_startParsingAnswers := True\<rparr>)
              (List.map_filter (parseAnswerLine types) rest))"
proof (induction ts arbitrary: st)
  case Nil
  show ?case by simp
next
  case (Cons t ts)
  show ?case
  proof (cases "isAnswerKeyHeader t")
    case True
    with Cons.prems have "answerStep types t st = st\<lparr>ak_foundKey := True, ak_startParsingAnswers := True\<rparr>"
      by (simp add: answerStep_def)
    with True show ?thesis by (simp add: steps_after_header)
  next
    case False
    with Cons.prems have "answerStep types t st = st" by (simp add: answerStep_def)
    with False Cons show ?thesis by simp
  qed
qed

lemma store_answers:
  "ak_answers (foldl (\<lambda>s pl. storeAnswer pl s) st pls) n =
     (if filter (\<lambda>pl. pl_number pl = n) pls = [] then ak_answers st n
      else Some (pl_answer (last (filter (\<lambda>pl. pl_number pl = n) pls))))"
  by (induction pls rule: rev_induct) (simp_all add: storeAnswer_def)

lemma store_warnings:
  "count_list (ak_warnings (foldl (\<lambda>s pl. storeAnswer pl s) st pls)) (DuplicateAnswer n) =
     count_list (ak_warnings st) (DuplicateAnswer n)
       + (length (filter (\<lambda>pl. pl_number pl = n) pls) - (if ak_answers st n = None then 1 else 0))"
proof (induction pls rule: rev_induct)
  case Nil
  show ?case by simp
next
  case (snoc p pls)
  let ?s = "foldl (\<lambda>s pl. storeAnswer pl s) st pls"
  have w: "count_list (ak_warnings (storeAnswer p ?s)) (DuplicateAnswer n) =
      count_list (ak_warnings ?s) (DuplicateAnswer n)
        + (if pl_number p = n \<and> ak_answers ?s n \<noteq> None then 1 else 0)"
    by (auto simp: storeAnswer_def)
  show ?case
    using snoc.IH w store_answers [of st pls n]
    by (auto split: if_splits)
qed

text \<open>
  Claim C6. For every body and every question number, the answer map holds the decoding of
  the last line of the answer-key section that decodes to this number and nothing from the
  earlier ones (and no entry when no line does), and the loop has warned once for each
  overwrite: one warning fewer than there are decoded lines for the number.
\<close>

theorem last_answer_wins:
  "ak_answers (parseAnswerKey questionTypes body) n =
     (if decodedFor questionTypes body n = [] then None
      else Some (pl_answer (last (decodedFor questionTypes body n))))
   \<and> count_list (ak_warnings (parseAnswerKey questionTypes body)) (DuplicateAnswer n)
       = length (decodedFor questionTypes body n) - 1"
proof -
  let ?init = "\<lparr>ak_answers = Map.empty, ak_foundKey = False,
               ak_startParsingAnswers = False, ak_warnings = []\<rparr>"
  let ?ts = "List.map_filter elementText body"
  let ?st = "answerLoop questionTypes body ?init"
  have "?st = foldl (\<lambda>s t. answerStep questionTypes t s) ?init ?ts"
    by (rule answerLoop_texts)
  also have "\<dots> = (case dropWhile (\<lambda>t. \<not> isAnswerKeyHeader t) ?ts of
          [] \<Rightarrow> ?init
        | h # rest \<Rightarrow>
            foldl (\<lambda>s pl. storeAnswer pl s)
              (?init\<lparr>ak_foundKey := True, ak_startParsingAnswers := True\<rparr>)
              (List.map_filter (parseAnswerLine questionTypes) rest))"
    by (rule steps_before_header) simp_all
  finally have loop: "?st = (case dropWhile (\<lambda>t. \<not> isAnswerKeyHeader t) ?ts of
          [] \<Rightarrow> ?init
        | h # rest \<Rightarrow>
            foldl (\<lambda>s pl. storeAnswer pl s)
              (?init\<lparr>ak_foundKey := True, ak_startParsingAnswers := True\<rparr>)
              (List.map_filter (parseAnswerLine questionTypes) rest))" .
  have a: "ak_answers (parseAnswerKey questionTypes body) n = ak_answers ?st n"
    by (simp add: parseAnswerKey_def Let_def)
  have w: "count_list (ak_warnings (parseAnswerKey questionTypes body)) (DuplicateAnswer n)
             = count_list (ak_warnings ?st) (DuplicateAnswer n)"
    by (simp add: parseAnswerKey_def Let_def)
  show ?thesis
  proof (cases "dropWhile (\<lambda>t. \<not> isAnswerKeyHeader t) ?ts")
    case Nil
    with loop have st: "?st = ?init" by simp
    have d: "decodedFor questionTypes body n = []"
      unfolding decodedFor_def sectionLines_def Nil by (simp add: List.map_filter_simps)
    show ?thesis unfolding a w st d by simp
  next
    case (Cons h rest)
    with loop have st: "?st = foldl (\<lambda>s pl. storeAnswer pl s)
              (?init\<lparr>ak_foundKey := True, ak_startParsingAnswers := True\<rparr>)
              (List.map_filter (parseAnswerLine questionTypes) rest)" by simp
    have d: "decodedFor questionTypes body n =
               filter (\<lambda>pl. pl_number pl = n) (List.map_filter (parseAnswerLine questionTypes) rest)"
      unfolding decodedFor_def sectionLines_def Cons by simp
    show ?thesis
      unfolding a w st d by (simp add: store_answers store_warnings)
  qed
qed
section \<open>The type a question gets from its options\<close>


lemma finalizeQuestion_fields:
  "qtype (finalizeQuestion q acc) = qtype q"
  "options (finalizeQuestion q acc) = options q"
  "number (finalizeQuestion q acc) = number q"
  "q_text (finalizeQuestion q acc) = q_text q"
  by (simp_all add: finalizeQuestion_def Let_def)




subsection \<open>A keyword found in a stem is found in its continuation\<close>
















subsection \<open>The type of a question follows its stem and its options\<close>










text \<open>The loop body as a dispatch on a state that differs in the image lists only.\<close>

lemma processBlock_cases:
  obtains st1 ed' where
    "st_questions st1 = st_questions st" "st_currentQuestion st1 = st_currentQuestion st"
    "st_questionTypes st1 = st_questionTypes st"
    "st_currentQuestionNumber st1 = st_currentQuestionNumber st"
    "st_uuidCounter st1 = st_uuidCounter st"
    "ed_text ed' = ed_text ed"
    "processBlock i ed st =
       (case questionStartMatch (ed_text ed) of
          Some (ds, rest) \<Rightarrow> startQuestion (ed_text ed) ds rest st1
        | None \<Rightarrow> (case st_currentQuestion st of
                      Some q \<Rightarrow> continueQuestion ed' q st1
                    | None \<Rightarrow> st1))"
proof -
  define named where "named = map (\<lambda>m. m\<lparr>filename :=
                     generateImageFilename (case st_currentQuestion st of None \<Rightarrow> 0 | Some q \<Rightarrow> number q)
                       (''elem'' @ natToString i @ ''_img'' @ take 4 (img_id m))
                       (img_id m) (getExtensionFromMimeType (contentType m))\<rparr>) (ed_images ed)"
  define st1 where "st1 = st\<lparr>st_accumulatedImages := st_accumulatedImages st @ named,
                   st_allImages := st_allImages st @ named\<rparr>"
  define ed' where "ed' = ed\<lparr>ed_images := named\<rparr>"
  have "processBlock i ed st =
       (case questionStartMatch (ed_text ed) of
          Some (ds, rest) \<Rightarrow> startQuestion (ed_text ed) ds rest st1
        | None \<Rightarrow> (case st_currentQuestion st of
                      Some q \<Rightarrow> continueQuestion ed' q st1
                    | None \<Rightarrow> st1))"
    unfolding processBlock_def Let_def st1_def ed'_def named_def
    by (simp split: option.split prod.split)
  moreover have "st_questions st1 = st_questions st" "st_currentQuestion st1 = st_currentQuestion st"
    "st_questionTypes st1 = st_questionTypes st"
    "st_currentQuestionNumber st1 = st_currentQuestionNumber st"
    "st_uuidCounter st1 = st_uuidCounter st" "ed_text ed' = ed_text ed"
    by (simp_all add: st1_def ed'_def)
  ultimately show thesis using that by blast
qed







section \<open>Items for incomplete multiple-choice entries\<close>

lemma optionsLoop_idents:
  "map rl_ident (fst (optionsLoop ca opts i (acc, c)))
     = map rl_ident acc @ map (\<lambda>(j, opt). choiceIdent opt j) (List.enumerate i opts)"
  by (induction opts arbitrary: i acc c) (simp_all add: Let_def)

lemma optionsLoop_no_answer: "snd (optionsLoop None opts i (acc, c)) = c"
  by (induction opts arbitrary: i acc c) (simp_all add: Let_def isCorrectOption_def)

lemma optionsLoop_length:
  "length (fst (optionsLoop ca opts i (acc, c))) = length acc + length opts"
  using arg_cong [OF optionsLoop_idents [of ca opts i acc c], of length] by simp

lemma item_labels:
  "it_response_labels (QTI_createMultipleChoiceSingleItem q itemIdent)
     = fst (optionsLoop
              (if options q = [] \<and> correctAnswer q = None
               then Some (StringAnswer (letter (hd (placeholderOptions (qtype q)))))
               else correctAnswer q)
              (if options q = [] then placeholderOptions (qtype q) else options q) 0 ([], None))"
  by (simp add: QTI_createMultipleChoiceSingleItem_def Let_def case_prod_unfold)

lemma item_conditions_no_answer:
  assumes "correctAnswer q = None"
  shows "it_respconditions (QTI_createMultipleChoiceSingleItem q itemIdent)
     = (let cid = choiceIdent (hd (if options q = [] then placeholderOptions (qtype q) else options q)) 0
        in [\<lparr>rc_condition = VarEqual (''response_'' @ itemIdent) cid, rc_setScore = 100\<rparr>,
            \<lparr>rc_condition = NotVarEqual (''response_'' @ itemIdent) cid, rc_setScore = 0\<rparr>])"
proof (cases "options q = []")
  case True
  have "snd (optionsLoop (Some (StringAnswer (letter (hd (placeholderOptions (qtype q))))))
               (placeholderOptions (qtype q)) 0 ([], None))
          = Some (choiceIdent (hd (placeholderOptions (qtype q))) 0)"
    by (simp add: placeholderOptions_def Let_def isCorrectOption_def choiceIdent_def)
  with True assms show ?thesis
    by (simp add: QTI_createMultipleChoiceSingleItem_def Let_def case_prod_unfold)
next
  case False
  have "snd (optionsLoop None (options q) 0 ([], None)) = None"
    by (rule optionsLoop_no_answer)
  with False assms show ?thesis
    by (simp add: QTI_createMultipleChoiceSingleItem_def Let_def case_prod_unfold)
qed

text \<open>
  Claim C5, as the code has it. For every entry the generator returns an item. An entry
  without options gets the two placeholder choices (T and F for a true/false question, A
  and B otherwise); an entry with options gets one choice per option and no padding, so a
  single option gives a single choice. When the entry has no answer record, the condition
  that sets SCORE to 100 tests for the first choice.
\<close>

theorem mc_item_for_incomplete_entry:
  "(let item = QTI_createMultipleChoiceSingleItem q itemIdent;
        labels = it_response_labels item
    in length labels = (if options q = [] then 2 else length (options q))
       \<and> (options q = [] \<longrightarrow>
            map rl_ident labels =
              (if qtype q = TRUE_FALSE then [''choice_T'', ''choice_F'']
               else [''choice_A'', ''choice_B'']))
       \<and> (correctAnswer q = None \<longrightarrow>
            it_respconditions item =
              [\<lparr>rc_condition = VarEqual (''response_'' @ itemIdent) (rl_ident (hd labels)),
                rc_setScore = 100\<rparr>,
               \<lparr>rc_condition = NotVarEqual (''response_'' @ itemIdent) (rl_ident (hd labels)),
                rc_setScore = 0\<rparr>]))"
proof -
  define opts where "opts = (if options q = [] then placeholderOptions (qtype q) else options q)"
  define labels where "labels = it_response_labels (QTI_createMultipleChoiceSingleItem q itemIdent)"
  have ne: "opts \<noteq> []" by (simp add: opts_def placeholderOptions_def)
  have len: "length labels = (if options q = [] then 2 else length (options q))"
    by (simp add: labels_def item_labels optionsLoop_length placeholderOptions_def)
  have ids: "map rl_ident labels = map (\<lambda>(j, opt). choiceIdent opt j) (List.enumerate 0 opts)"
    unfolding labels_def item_labels optionsLoop_idents opts_def by simp
  have pad: "map rl_ident labels =
              (if qtype q = TRUE_FALSE then [''choice_T'', ''choice_F'']
               else [''choice_A'', ''choice_B''])" if "options q = []"
    unfolding ids opts_def using that by (simp add: placeholderOptions_def choiceIdent_def)
  obtain o1 rest where o: "opts = o1 # rest" using ne by (cases opts) auto
  obtain l1 lrest where l: "labels = l1 # lrest"
    using len by (cases labels) (auto split: if_splits simp: o opts_def)
  from ids have "rl_ident l1 = choiceIdent o1 0" unfolding o l by simp
  then have hd: "rl_ident (hd labels) = choiceIdent (hd opts) 0" by (simp add: o l)
  have cond: "it_respconditions (QTI_createMultipleChoiceSingleItem q itemIdent) =
              [\<lparr>rc_condition = VarEqual (''response_'' @ itemIdent) (rl_ident (hd labels)),
                rc_setScore = 100\<rparr>,
               \<lparr>rc_condition = NotVarEqual (''response_'' @ itemIdent) (rl_ident (hd labels)),
                rc_setScore = 0\<rparr>]" if "correctAnswer q = None"
    unfolding hd opts_def using item_conditions_no_answer [OF that, of itemIdent]
    by (simp add: Let_def)
  show ?thesis
    unfolding Let_def labels_def [symmetric] using len pad cond by blast
qed

theorem mc_item_for_incomplete_entry_witness:
  "options (hd (irOf trueFalseNoOptions)) = []
   \<and> correctAnswer (hd (irOf trueFalseNoOptions)) = None
   \<and> qtype (hd (irOf trueFalseNoOptions)) = TRUE_FALSE
   \<and> map rl_ident (it_response_labels
         (QTI_createMultipleChoiceSingleItem (hd (irOf trueFalseNoOptions)) ''item_1''))
       = [''choice_T'', ''choice_F'']
   \<and> it_respconditions (QTI_createMultipleChoiceSingleItem (hd (irOf trueFalseNoOptions)) ''item_1'')
       = [\<lparr>rc_condition = VarEqual ''response_item_1'' ''choice_T'', rc_setScore = 100\<rparr>,
          \<lparr>rc_condition = NotVarEqual ''response_item_1'' ''choice_T'', rc_setScore = 0\<rparr>]"
proof -
  define labels where
    "labels = it_response_labels
                (QTI_createMultipleChoiceSingleItem (hd (irOf trueFalseNoOptions)) ''item_1'')"
  have h1: "options (hd (irOf trueFalseNoOptions)) = []" by code_simp
  have h2: "correctAnswer (hd (irOf trueFalseNoOptions)) = None" by code_simp
  have h3: "qtype (hd (irOf trueFalseNoOptions)) = TRUE_FALSE" by code_simp
  from mc_item_for_incomplete_entry [of "hd (irOf trueFalseNoOptions)" "''item_1''"] h1 h2 h3
  have a: "map rl_ident labels = [''choice_T'', ''choice_F'']"
    and b: "it_respconditions
              (QTI_createMultipleChoiceSingleItem (hd (irOf trueFalseNoOptions)) ''item_1'')
            = [\<lparr>rc_condition = VarEqual (''response_'' @ ''item_1'') (rl_ident (hd labels)),
                rc_setScore = 100\<rparr>,
               \<lparr>rc_condition = NotVarEqual (''response_'' @ ''item_1'') (rl_ident (hd labels)),
                rc_setScore = 0\<rparr>]"
    unfolding labels_def by (simp_all add: Let_def)
  from a have "labels \<noteq> []" by auto
  then have "rl_ident (hd labels) = hd (map rl_ident labels)" by (simp add: hd_map)
  with a have c: "rl_ident (hd labels) = ''choice_T''" by simp
  from a b c h1 h2 h3 show ?thesis unfolding labels_def by simp
qed

text \<open>
  The claim as it was stated fails on an entry with exactly one option: the item has one
  choice, not two. Scenario D itself has two options and no answer record, and its item
  marks the first choice.
\<close>

theorem single_option_item_counterexample:
  "map (\<lambda>q. (qtype q, map letter (options q), correctAnswer q)) (irOf oneOptionDocument)
     = [(MULTIPLE_CHOICE_SINGLE, [''A''], None)]
   \<and> map rl_ident (it_response_labels
         (QTI_createMultipleChoiceSingleItem (hd (irOf oneOptionDocument)) ''item_1''))
       = [''choice_A'']
   \<and> correctAnswer (hd (irOf scenarioD)) = None
   \<and> it_respconditions (QTI_createMultipleChoiceSingleItem (hd (irOf scenarioD)) ''item_1'')
       = [\<lparr>rc_condition = VarEqual ''response_item_1'' ''choice_A'', rc_setScore = 100\<rparr>,
          \<lparr>rc_condition = NotVarEqual ''response_item_1'' ''choice_A'', rc_setScore = 0\<rparr>]"
  by code_simp

section \<open>Drafts and markers\<close>

lemma allNumbers_start:
  "allNumbers (startQuestion t ds rest st) = allNumbers st @ [parseInt ds]"
  by (simp add: allNumbers_def startQuestion_def Let_def finalizeQuestion_fields
        split: option.split)

lemma continueQuestion_number:
  "\<exists>q'. st_currentQuestion (continueQuestion ed q st) = Some q' \<and> number q' = number q"
  by (simp add: continueQuestion_def Let_def case_prod_unfold split: option.split)

lemma continueQuestion_questions:
  "st_questions (continueQuestion ed q st) = st_questions st"
  by (simp add: continueQuestion_def Let_def case_prod_unfold)

lemma allNumbers_continue:
  "st_currentQuestion st = Some q \<Longrightarrow> allNumbers (continueQuestion ed q st) = allNumbers st"
  using continueQuestion_number [of ed q st]
  by (auto simp: allNumbers_def continueQuestion_questions)

lemma allNumbers_block:
  "allNumbers (processBlock i ed st)
     = allNumbers st @ (case markerNumber ed of None \<Rightarrow> [] | Some n \<Rightarrow> [n])"
proof -
  obtain st1 ed' where f: "st_questions st1 = st_questions st"
      "st_currentQuestion st1 = st_currentQuestion st"
    and pb: "processBlock i ed st =
       (case questionStartMatch (ed_text ed) of
          Some (ds, rest) \<Rightarrow> startQuestion (ed_text ed) ds rest st1
        | None \<Rightarrow> (case st_currentQuestion st of
                      Some q \<Rightarrow> continueQuestion ed' q st1
                    | None \<Rightarrow> st1))"
    by (rule processBlock_cases)
  from f have same: "allNumbers st1 = allNumbers st" by (simp add: allNumbers_def)
  show ?thesis
  proof (cases "questionStartMatch (ed_text ed)")
    case (Some dr)
    obtain ds rest where "dr = (ds, rest)" by (cases dr)
    with Some pb same show ?thesis by (simp add: allNumbers_start markerNumber_def)
  next
    case None
    show ?thesis
    proof (cases "st_currentQuestion st")
      case N: None
      with None pb same show ?thesis by (simp add: markerNumber_def)
    next
      case (Some q)
      with f have "st_currentQuestion st1 = Some q" by simp
      from allNumbers_continue [OF this] None Some pb same show ?thesis
        by (simp add: markerNumber_def)
    qed
  qed
qed

lemma processBlock_counter: "st_uuidCounter (processBlock i ed st) = st_uuidCounter st"
proof -
  obtain st1 ed' where f: "st_uuidCounter st1 = st_uuidCounter st"
    and pb: "processBlock i ed st =
       (case questionStartMatch (ed_text ed) of
          Some (ds, rest) \<Rightarrow> startQuestion (ed_text ed) ds rest st1
        | None \<Rightarrow> (case st_currentQuestion st of
                      Some q \<Rightarrow> continueQuestion ed' q st1
                    | None \<Rightarrow> st1))"
    by (rule processBlock_cases)
  show ?thesis unfolding pb using f
    by (simp add: startQuestion_def continueQuestion_def Let_def case_prod_unfold
          split: option.split)
qed

lemma empty_block_no_marker:
  "ed_text ed = [] \<Longrightarrow> markerNumber ed = None \<and> \<not> matchAnswerKeyPattern (ed_text ed)"
  by (simp add: markerNumber_def questionStartMatch_def matchAnswerKeyPattern_def)

lemma allNumbers_loop:
  "allNumbers (parseLoop uuid i es st)
     = allNumbers st @
       List.map_filter markerNumber
         (takeWhile (\<lambda>ed. \<not> matchAnswerKeyPattern (ed_text ed))
            (blocksOf uuid (st_uuidCounter st) es))"
proof (induction es arbitrary: i st)
  case Nil
  show ?case by (simp add: List.map_filter_simps)
next
  case (Cons e es)
  obtain ed k where pe: "processElement uuid (st_uuidCounter st) e = (ed, k)"
    by (cases "processElement uuid (st_uuidCounter st) e")
  let ?st1 = "st\<lparr>st_uuidCounter := k\<rparr>"
  have n1: "allNumbers ?st1 = allNumbers st" by (simp add: allNumbers_def)
  have blocks: "blocksOf uuid (st_uuidCounter st) (e # es) = ed # blocksOf uuid k es"
    by (simp add: pe)
  consider (skip) "ed_text ed = [] \<and> ed_images ed = []"
    | (header) "\<not> (ed_text ed = [] \<and> ed_images ed = [])" "matchAnswerKeyPattern (ed_text ed)"
    | (block) "\<not> (ed_text ed = [] \<and> ed_images ed = [])" "\<not> matchAnswerKeyPattern (ed_text ed)"
    by blast
  then show ?case
  proof cases
    case skip
    then have loop: "parseLoop uuid i (e # es) st = parseLoop uuid (Suc i) es ?st1"
      by (simp add: pe Let_def)
    from skip empty_block_no_marker [of ed]
    have "markerNumber ed = None" "\<not> matchAnswerKeyPattern (ed_text ed)" by simp_all
    then show ?thesis
      unfolding loop blocks Cons.IH n1 by (simp add: List.map_filter_simps)
  next
    case header
    then have loop: "parseLoop uuid i (e # es) st = ?st1"
      by (auto simp: pe Let_def)
    from header show ?thesis
      unfolding loop blocks n1 by (simp add: List.map_filter_simps)
  next
    case block
    then have loop: "parseLoop uuid i (e # es) st
                       = parseLoop uuid (Suc i) es (processBlock i ed ?st1)"
      by (auto simp: pe Let_def)
    have c: "st_uuidCounter (processBlock i ed ?st1) = k" by (simp add: processBlock_counter)
    from block show ?thesis
      unfolding loop blocks Cons.IH c allNumbers_block n1
      by (simp add: List.map_filter_simps split: option.split)
  qed
qed

lemma parse_numbers_read:
  "map number (pr_questions (parseQuestions uuid k body))
     = List.map_filter markerNumber
         (takeWhile (\<lambda>ed. \<not> matchAnswerKeyPattern (ed_text ed)) (blocksOf uuid k body))"
proof -
  have "map number (pr_questions (parseQuestions uuid k body))
          = allNumbers (parseLoop uuid 0 body (initialState k))"
    by (simp add: parseQuestions_def allNumbers_def Let_def finalizeQuestion_fields
          split: option.split)
  also have "\<dots> = allNumbers (initialState k) @
       List.map_filter markerNumber
         (takeWhile (\<lambda>ed. \<not> matchAnswerKeyPattern (ed_text ed)) (blocksOf uuid k body))"
    unfolding allNumbers_loop by (simp add: initialState_def)
  finally show ?thesis by (simp add: allNumbers_def initialState_def)
qed









section \<open>A document without questions\<close>

lemma map_filter_Nil_takeWhile:
  "List.map_filter f xs = [] \<Longrightarrow> List.map_filter f (takeWhile P xs) = []"
  by (induction xs) (auto simp: List.map_filter_simps split: option.splits)

text \<open>
  Claim C4, as the code has it. When no block of the document starts with a
  leading-integer marker, the structural parser returns the empty list of questions, and
  the orchestrator then raises the fatal parsing error: the run ends without success, with
  the alert of the error handler, and the exporter is not called, whatever the exporter is.
\<close>

theorem no_marker_aborts_run:
  assumes "documentMarkers uuid k body = []"
  shows "pr_questions (parseQuestions uuid k body) = []
         \<and> startConversion uuid k body exporter
            = (\<lparr>cr_success = False,
                cr_message = ''Error: No questions could be parsed from the document.''\<rparr>,
               [ProjectFolderCreated,
                UiAlert ''QTI Conversion Error'' ''No questions could be parsed from the document.''])"
proof -
  from assms have "List.map_filter markerNumber
         (takeWhile (\<lambda>ed. \<not> matchAnswerKeyPattern (ed_text ed)) (blocksOf uuid k body)) = []"
    unfolding documentMarkers_def by (rule map_filter_Nil_takeWhile)
  with parse_numbers_read [of uuid k body]
  have e: "pr_questions (parseQuestions uuid k body) = []" by simp
  then show ?thesis
    by (simp add: startConversion_def conversionBody_def Let_def userMessageOf_def)
qed

theorem no_marker_aborts_run_witness:
  "documentMarkers (\<lambda>n. []) 0 unmarkedDocument = []
   \<and> fst (startConversion (\<lambda>n. []) 0 unmarkedDocument
            (\<lambda>qs imgs. \<lparr>ex_success = True, ex_message = ''done''\<rparr>))
      = \<lparr>cr_success = False,
         cr_message = ''Error: No questions could be parsed from the document.''\<rparr>
   \<and> snd (startConversion (\<lambda>n. []) 0 unmarkedDocument
            (\<lambda>qs imgs. \<lparr>ex_success = True, ex_message = ''done''\<rparr>))
      = [ProjectFolderCreated,
         UiAlert ''QTI Conversion Error'' ''No questions could be parsed from the document.'']"
proof -
  have h: "documentMarkers (\<lambda>n. []) 0 unmarkedDocument = []" by code_simp
  from no_marker_aborts_run [OF h, of "\<lambda>qs imgs. \<lparr>ex_success = True, ex_message = ''done''\<rparr>"] h
  show ?thesis by simp
qed

text \<open>
  The claim as it was stated fails in its first half: on a document without a marker the
  structural parser does not fail, it returns its result with no question and no image.
\<close>

theorem parser_returns_empty_counterexample:
  "documentMarkers (\<lambda>n. []) 0 unmarkedDocument = []
   \<and> pr_questions (parseQuestions (\<lambda>n. []) 0 unmarkedDocument) = []
   \<and> pr_images (parseQuestions (\<lambda>n. []) 0 unmarkedDocument) = []
   \<and> pr_uuidCounter (parseQuestions (\<lambda>n. []) 0 unmarkedDocument) = 0"
  by code_simp

section \<open>Two runs of the structural parser\<close>

text \<open>
  The parser reads the uuid supply once per inline image. Two runs on the same body are
  compared through the token reading of their texts: every recogniser gives the same
  verdict on two texts that spell the same tokens, so both runs take the same branches and
  build the same questions, up to the ids.
\<close>

subsection \<open>Rendering tokens\<close>



lemma placeholder_Cons: "placeholder x = CHR ''['' # ''IMG:'' @ x @ '']''"
  by (simp add: placeholder_def)


lemma wfToks_simps:
  "wfToks u []"
  "wfToks u (Lit c # T) = wfToks u T"
  "wfToks u (Img j # T) = (hexId (u j) \<and> wfToks u T)"
  "wfToks u (A @ B) = (wfToks u A \<and> wfToks u B)"
  by (simp_all add: wfToks_def)


lemma wfToks_tl: "wfToks u T \<Longrightarrow> wfToks u (tl T)"
  by (cases T) (simp_all add: wfToks_def)




lemma hexId_phChar: "hexId x \<Longrightarrow> list_all phChar (placeholder x)"
  by (auto simp: hexId_def phChar_def placeholder_def list_all_iff)


lemma dropWhile_all: "list_all P xs \<Longrightarrow> dropWhile P (xs @ ys) = dropWhile P ys"
  by (induction xs) simp_all

lemma list_all_weaken: "list_all P xs \<Longrightarrow> (\<And>x. P x \<Longrightarrow> Q x) \<Longrightarrow> list_all Q xs"
  by (induction xs) simp_all


lemma dropWhile_render_T:
  "wfToks u T \<Longrightarrow> (\<And>c. phChar c \<Longrightarrow> P c) \<Longrightarrow>
   dropWhile P (render u T) = render u (dropWhile (liftT P) T)"
proof (induction u T rule: render.induct)
  case (3 u j T)
  from "3.prems"(1) have "hexId (u j)" by (simp add: wfToks_simps)
  then have "list_all phChar (placeholder (u j))" by (rule hexId_phChar)
  then have "list_all P (placeholder (u j))"
    using "3.prems"(2) by (rule list_all_weaken)
  with 3 show ?case by (simp add: dropWhile_all liftT_def wfToks_simps)
qed (simp_all add: liftT_def wfToks_simps)




subsection \<open>The markers of questions and options on tokens\<close>

lemma render_case:
  "(case render g T of [] \<Rightarrow> a | c # r \<Rightarrow> f c r) =
     (case T of
        [] \<Rightarrow> a
      | Lit c # T' \<Rightarrow> f c (render g T')
      | Img j # T' \<Rightarrow> f CHR ''['' (''IMG:'' @ g j @ '']'' @ render g T'))"
  by (cases T rule: lits.cases) (simp_all add: placeholder_Cons)








subsection \<open>The answer-key header and the continuation tests on tokens\<close>










subsection \<open>Type inference on tokens\<close>




lemma of_char_of_small: "n < 256 \<Longrightarrow> (of_char (char_of n :: char) :: nat) = n"
  by simp




















subsection \<open>Placeholders in related texts\<close>












subsection \<open>The recognisers on related texts\<close>













subsection \<open>Continuing a stem\<close>









subsection \<open>One block in two runs\<close>







subsection \<open>Finalising and starting a question in two runs\<close>










subsection \<open>The loop body in two runs\<close>




subsection \<open>The loop and the result in two runs\<close>








section \<open>Escaping in the QTI 1.2 utilities\<close>

lemma replaceAllChar_same: "replaceAllChar c [c] s = s"
  by (induction s) (simp_all add: replaceAllChar_def)

text \<open>
  Claim C10. For every non-null string, \<^verbatim>\<open>sanitizeHtml\<close> returns its argument unchanged:
  each replacement puts the character it found back, so the ampersand, the angle brackets
  and the double quote reach the generated documents as they are.
\<close>

theorem sanitizeHtml_identity: "sanitizeHtml (Some s) = s"
  by (simp add: sanitizeHtml_def replaceAllChar_same)

end
